theory Spec2Isabelle
  imports Main
begin

section \<open>The Oracle Code Assist handler (src/api/providers/oca-handler.ts)\<close>

text \<open>
  A shallow embedding of the class \<open>OcaHandler\<close>: the stream interpreter of
  \<open>createMessage\<close> (chat-completions loop and \<open>processResponsesEvent\<close>), the
  conversation formatter \<open>formatFullConversation\<close>, the tool-choice resolution of the
  chat request, the credential check of \<open>getClientWithBase\<close> and \<open>completePrompt\<close>.

  Conventions. A field of a wire object that may be absent, \<open>undefined\<close> or \<open>null\<close> is an
  \<open>option\<close>; string fields hold strings when present (the wire types of the two protocols).
  An async generator is modelled by the list of chunks it yields together with the state it
  leaves; a raw stream is the finite list of units it delivers followed by its normal end or
  by the error it throws. Collaborators of the class that are imported from other modules
  (token manager, SDK client, error translation, id sanitising) are parameters, gathered in
  the record \<open>env\<close>.
\<close>

subsection \<open>JavaScript operators on optional strings\<close>

definition truthy :: "string option \<Rightarrow> bool" where
  "truthy s = (case s of None \<Rightarrow> False | Some x \<Rightarrow> x \<noteq> [])"

text \<open>\<open>a || b\<close> on values that are strings or absent.\<close>

definition jsOr :: "string option \<Rightarrow> string option \<Rightarrow> string option" where
  "jsOr a b = (if truthy a then a else b)"

text \<open>\<open>a ?? b\<close>.\<close>

definition nullish :: "'a option \<Rightarrow> 'a option \<Rightarrow> 'a option" where
  "nullish a b = (case a of None \<Rightarrow> b | Some x \<Rightarrow> Some x)"

definition orZero :: "int option \<Rightarrow> int" where
  "orZero a = (case a of None \<Rightarrow> 0 | Some x \<Rightarrow> x)"

subsection \<open>Normalized output chunks (ApiStream)\<close>

datatype chunk =
    Text string
  | Reasoning string
  | ToolCallPartial "int option" "string option" "string option" "string option"
  | ToolCall string string string
  | ToolCallEnd string
  | Usage int int

fun isUsage :: "chunk \<Rightarrow> bool" where
  "isUsage (Usage i out) = True"
| "isUsage c = False"

fun isToolCallEnd :: "chunk \<Rightarrow> bool" where
  "isToolCallEnd (ToolCallEnd i) = True"
| "isToolCallEnd c = False"

text \<open>The id carried by a \<open>tool_call_partial\<close> chunk, when it carries one.\<close>

fun partialId :: "chunk \<Rightarrow> string option" where
  "partialId (ToolCallPartial ix i n a) = i"
| "partialId c = None"

subsection \<open>Errors and raw streams\<close>

datatype error = Error (message: string) (opc_request_id: "string option")

datatype 'a raw_stream = RawStream (units: "'a list") (failure: "error option")

subsection \<open>Responses API: raw events\<close>

record resp_usage =
  input_tokens :: "int option"
  output_tokens :: "int option"
  prompt_tokens :: "int option"
  completion_tokens :: "int option"

record content_part =
  cp_type :: "string option"
  cp_text :: "string option"

record fn_obj =
  fn_name :: "string option"
  fn_arguments :: "string option"

record item =
  item_type :: "string option"
  item_call_id :: "string option"
  item_tool_call_id :: "string option"
  item_id :: "string option"
  item_name :: "string option"
  item_function :: "fn_obj option"
  item_function_name :: "string option"
  item_text :: "string option"
  item_content :: "content_part list option"
  item_arguments :: "string option"
  item_function_arguments :: "string option"

text \<open>
  The \<open>text\<close> member of a response object. \<open>completePrompt\<close> reads it as a string, but the
  code does not test its type, and in the Responses protocol it is the text-configuration
  object (the request type at line 322 declares it so): \<open>TextConfig\<close> stands for any such
  non-string, truthy value.
\<close>

datatype text_member = TextString string | TextConfig

record response_obj =
  r_output :: "item list option"
  r_id :: "string option"
  r_usage :: "resp_usage option"
  r_text :: "text_member option"

record event =
  ev_type :: "string option"
  ev_delta :: "string option"
  ev_call_id :: "string option"
  ev_tool_call_id :: "string option"
  ev_id :: "string option"
  ev_name :: "string option"
  ev_function_name :: "string option"
  ev_arguments :: "string option"
  ev_index :: "int option"
  ev_item :: "item option"
  ev_response :: "response_obj option"
  ev_choice_content :: "string option"
  ev_usage :: "resp_usage option"

text \<open>
  \<open>ev_choice_content\<close> is \<open>event?.choices?.[0]?.delta?.content\<close>, the only path into
  \<open>choices\<close> that \<open>processResponsesEvent\<close> reads.
\<close>

definition noItem :: item where
  "noItem = \<lparr>item_type = None, item_call_id = None, item_tool_call_id = None,
     item_id = None, item_name = None, item_function = None, item_function_name = None,
     item_text = None, item_content = None, item_arguments = None,
     item_function_arguments = None\<rparr>"

definition noEvent :: event where
  "noEvent = \<lparr>ev_type = None, ev_delta = None, ev_call_id = None, ev_tool_call_id = None,
     ev_id = None, ev_name = None, ev_function_name = None, ev_arguments = None,
     ev_index = None, ev_item = None, ev_response = None, ev_choice_content = None,
     ev_usage = None\<rparr>"

subsection \<open>The handler's instance fields\<close>

record handler =
  lastResponseId :: "string option"
  lastResponseOutput :: "item list option"
  pendingToolCallId :: "string option"
  pendingToolCallName :: "string option"

definition newHandler :: handler where
  "newHandler = \<lparr>lastResponseId = None, lastResponseOutput = None,
     pendingToolCallId = None, pendingToolCallName = None\<rparr>"

subsection \<open>processResponsesEvent\<close>

definition usageChunk :: "resp_usage \<Rightarrow> chunk" where
  "usageChunk u =
     Usage (orZero (nullish (input_tokens u) (prompt_tokens u)))
           (orZero (nullish (output_tokens u) (completion_tokens u)))"

text \<open>Lines 390-396: the output array and the response id are captured first.\<close>

definition captureResponse :: "handler \<Rightarrow> event \<Rightarrow> handler" where
  "captureResponse h e =
     (case ev_response e of
        None \<Rightarrow> h
      | Some r \<Rightarrow>
          (let h1 = (case r_output r of None \<Rightarrow> h
                     | Some out \<Rightarrow> h\<lparr>lastResponseOutput := Some out\<rparr>)
           in if truthy (r_id r) then h1\<lparr>lastResponseId := r_id r\<rparr> else h1))"

definition isTextDelta :: "string option \<Rightarrow> bool" where
  "isTextDelta t = (t = Some ''response.text.delta'' \<or> t = Some ''response.output_text.delta'')"

definition isReasoningDelta :: "string option \<Rightarrow> bool" where
  "isReasoningDelta t =
     (t = Some ''response.reasoning.delta'' \<or> t = Some ''response.reasoning_text.delta'' \<or>
      t = Some ''response.reasoning_summary.delta'' \<or>
      t = Some ''response.reasoning_summary_text.delta'')"

definition isRefusalDelta :: "string option \<Rightarrow> bool" where
  "isRefusalDelta t = (t = Some ''response.refusal.delta'')"

definition isToolArgsDelta :: "string option \<Rightarrow> bool" where
  "isToolArgsDelta t =
     (t = Some ''response.tool_call_arguments.delta'' \<or>
      t = Some ''response.function_call_arguments.delta'')"

definition isToolArgsDone :: "string option \<Rightarrow> bool" where
  "isToolArgsDone t =
     (t = Some ''response.tool_call_arguments.done'' \<or>
      t = Some ''response.function_call_arguments.done'')"

definition isOutputItem :: "string option \<Rightarrow> bool" where
  "isOutputItem t =
     (t = Some ''response.output_item.added'' \<or> t = Some ''response.output_item.done'')"

definition isResponseDone :: "string option \<Rightarrow> bool" where
  "isResponseDone t = (t = Some ''response.done'' \<or> t = Some ''response.completed'')"

text \<open>Lines 434-435: identity of an arguments delta, event fields first, then the
  pending identity.\<close>

definition resolveCallId :: "handler \<Rightarrow> event \<Rightarrow> string option" where
  "resolveCallId h e =
     jsOr (ev_call_id e) (jsOr (ev_tool_call_id e) (jsOr (ev_id e)
       (jsOr (pendingToolCallId h) None)))"

definition resolveName :: "handler \<Rightarrow> event \<Rightarrow> string option" where
  "resolveName h e =
     jsOr (ev_name e) (jsOr (ev_function_name e) (jsOr (pendingToolCallName h) None))"

definition toolArgsDelta :: "handler \<Rightarrow> event \<Rightarrow> chunk list" where
  "toolArgsDelta h e =
     (let callId = resolveCallId h e;
          name = resolveName h e;
          args = jsOr (ev_delta e) (ev_arguments e)
      in if truthy name \<and> truthy callId
         then [ToolCallPartial (Some (orZero (ev_index e))) callId name args]
         else [])"

definition isCallItem :: "item \<Rightarrow> bool" where
  "isCallItem it = (item_type it = Some ''function_call'' \<or> item_type it = Some ''tool_call'')"

definition itemCallId :: "item \<Rightarrow> string option" where
  "itemCallId it = jsOr (item_call_id it) (jsOr (item_tool_call_id it) (item_id it))"

definition itemFnName :: "item \<Rightarrow> string option" where
  "itemFnName it = (case item_function it of None \<Rightarrow> None | Some f \<Rightarrow> fn_name f)"

definition itemFnArguments :: "item \<Rightarrow> string option" where
  "itemFnArguments it = (case item_function it of None \<Rightarrow> None | Some f \<Rightarrow> fn_arguments f)"

definition itemName :: "item \<Rightarrow> string option" where
  "itemName it = jsOr (item_name it) (jsOr (itemFnName it) (item_function_name it))"

text \<open>Lines 466-473: a function-call item with a non-empty call id overwrites the pending
  identity.\<close>

definition recordIdentity :: "handler \<Rightarrow> item \<Rightarrow> handler" where
  "recordIdentity h it =
     (if isCallItem it \<and> truthy (itemCallId it)
      then h\<lparr>pendingToolCallId := itemCallId it, pendingToolCallName := itemName it\<rparr>
      else h)"

fun messageTexts :: "content_part list \<Rightarrow> chunk list" where
  "messageTexts [] = []"
| "messageTexts (c # cs) =
     (if (cp_type c = Some ''text'' \<or> cp_type c = Some ''output_text'') \<and> truthy (cp_text c)
      then Text (the (cp_text c)) # messageTexts cs
      else messageTexts cs)"

text \<open>Lines 475-502: what an output item yields.\<close>

definition itemChunks :: "string option \<Rightarrow> item \<Rightarrow> chunk list" where
  "itemChunks evType it =
     (if item_type it = Some ''text'' \<and> truthy (item_text it) then
        [Text (the (item_text it))]
      else if item_type it = Some ''reasoning'' \<and> truthy (item_text it) then
        [Reasoning (the (item_text it))]
      else if item_type it = Some ''message'' \<and> item_content it \<noteq> None then
        messageTexts (the (item_content it))
      else if isCallItem it \<and> evType = Some ''response.output_item.done'' then
        (if truthy (itemCallId it) then
           [ToolCall (the (itemCallId it))
              (case jsOr (itemName it) (Some []) of None \<Rightarrow> [] | Some n \<Rightarrow> n)
              (case jsOr (item_arguments it)
                      (jsOr (itemFnArguments it) (item_function_arguments it)) of
                 None \<Rightarrow> ''{}'' | Some a \<Rightarrow> a)]
         else [])
      else [])"

definition processResponsesEvent :: "handler \<Rightarrow> event \<Rightarrow> chunk list \<times> handler" where
  "processResponsesEvent h0 e =
     (let h = captureResponse h0 e; t = ev_type e in
      if isTextDelta t then
        (if truthy (ev_delta e) then [Text (the (ev_delta e))] else [], h)
      else if isReasoningDelta t then
        (if truthy (ev_delta e) then [Reasoning (the (ev_delta e))] else [], h)
      else if isRefusalDelta t then
        (if truthy (ev_delta e) then [Text (''[Refusal] '' @ the (ev_delta e))] else [], h)
      else if isToolArgsDelta t then (toolArgsDelta h e, h)
      else if isToolArgsDone t then ([], h)
      else if isOutputItem t then
        (case ev_item e of
           None \<Rightarrow> ([], h)
         | Some it \<Rightarrow> (itemChunks t it, recordIdentity h it))
      else if isResponseDone t then
        (case (case ev_response e of None \<Rightarrow> None | Some r \<Rightarrow> r_usage r) of
           None \<Rightarrow> ([], h)
         | Some u \<Rightarrow> ([usageChunk u], h))
      else if truthy (ev_choice_content e) then ([Text (the (ev_choice_content e))], h)
      else (case ev_usage e of None \<Rightarrow> ([], h) | Some u \<Rightarrow> ([usageChunk u], h)))"

text \<open>The loop of lines 130-134 over the events the stream delivers.\<close>

fun responsesLoop :: "handler \<Rightarrow> event list \<Rightarrow> chunk list \<times> handler" where
  "responsesLoop h [] = ([], h)"
| "responsesLoop h (e # es) =
     (let (out, h1) = processResponsesEvent h e;
          (rest, h2) = responsesLoop h1 es
      in (out @ rest, h2))"

subsection \<open>Chat-completions protocol: raw chunks\<close>

record tool_call_delta =
  tc_index :: "int option"
  tc_id :: "string option"
  tc_function :: "fn_obj option"

record chat_delta =
  d_content :: "string option"
  d_tool_calls :: "tool_call_delta list option"
  d_reasoning_content :: "string option"
  d_reasoning :: "string option"

record chat_choice =
  ch_delta :: "chat_delta option"
  ch_finish_reason :: "string option"

record chat_usage =
  cu_prompt_tokens :: "int option"
  cu_completion_tokens :: "int option"

record chat_chunk =
  ck_choices :: "chat_choice list option"
  ck_usage :: "chat_usage option"

definition noDelta :: chat_delta where
  "noDelta = \<lparr>d_content = None, d_tool_calls = None, d_reasoning_content = None,
     d_reasoning = None\<rparr>"

text \<open>A chunk whose only choice carries the given delta and finish reason.\<close>

definition deltaChunk :: "chat_delta \<Rightarrow> string option \<Rightarrow> chat_usage option \<Rightarrow> chat_chunk" where
  "deltaChunk d fr u =
     \<lparr>ck_choices = Some [\<lparr>ch_delta = Some d, ch_finish_reason = fr\<rparr>], ck_usage = u\<rparr>"

definition toolDelta :: "int \<Rightarrow> string option \<Rightarrow> string option \<Rightarrow> string option \<Rightarrow> tool_call_delta" where
  "toolDelta ix i n a =
     \<lparr>tc_index = Some ix, tc_id = i, tc_function = Some \<lparr>fn_name = n, fn_arguments = a\<rparr>\<rparr>"

subsection \<open>The chat-completions loop of createMessage (lines 175-232)\<close>

text \<open>\<open>chunk.choices?.[0]\<close>\<close>

definition firstChoice :: "chat_chunk \<Rightarrow> chat_choice option" where
  "firstChoice ck =
     (case ck_choices ck of None \<Rightarrow> None | Some [] \<Rightarrow> None | Some (c # cs) \<Rightarrow> Some c)"

definition choiceDelta :: "chat_chunk \<Rightarrow> chat_delta option" where
  "choiceDelta ck = (case firstChoice ck of None \<Rightarrow> None | Some c \<Rightarrow> ch_delta c)"

definition finishReason :: "chat_chunk \<Rightarrow> string option" where
  "finishReason ck = (case firstChoice ck of None \<Rightarrow> None | Some c \<Rightarrow> ch_finish_reason c)"

text \<open>\<open>activeToolCallIds\<close> is a JavaScript \<open>Set\<close>: it iterates in insertion order and
  adding a member again changes nothing.\<close>

definition setAdd :: "string list \<Rightarrow> string \<Rightarrow> string list" where
  "setAdd xs x = (if x \<in> set xs then xs else xs @ [x])"

definition tcName :: "tool_call_delta \<Rightarrow> string option" where
  "tcName tc = (case tc_function tc of None \<Rightarrow> None | Some f \<Rightarrow> fn_name f)"

definition tcArguments :: "tool_call_delta \<Rightarrow> string option" where
  "tcArguments tc = (case tc_function tc of None \<Rightarrow> None | Some f \<Rightarrow> fn_arguments f)"

text \<open>Lines 187-198: every fragment is forwarded; a fragment with an id marks it active.\<close>

fun toolCallsLoop :: "string list \<Rightarrow> tool_call_delta list \<Rightarrow> chunk list \<times> string list" where
  "toolCallsLoop active [] = ([], active)"
| "toolCallsLoop active (tc # tcs) =
     (let active1 = (if truthy (tc_id tc) then setAdd active (the (tc_id tc)) else active);
          (rest, active2) = toolCallsLoop active1 tcs
      in (ToolCallPartial (tc_index tc) (tc_id tc) (tcName tc) (tcArguments tc) # rest,
          active2))"

text \<open>Lines 201-207.\<close>

definition reasoningText :: "chat_delta option \<Rightarrow> string option" where
  "reasoningText delta =
     (case delta of
        None \<Rightarrow> None
      | Some d \<Rightarrow> (case d_reasoning_content d of Some s \<Rightarrow> Some s | None \<Rightarrow> d_reasoning d))"

definition textOut :: "chat_chunk \<Rightarrow> chunk list" where
  "textOut ck =
     (case choiceDelta ck of
        None \<Rightarrow> []
      | Some d \<Rightarrow> if truthy (d_content d) then [Text (the (d_content d))] else [])"

definition toolOut :: "string list \<Rightarrow> chat_chunk \<Rightarrow> chunk list \<times> string list" where
  "toolOut active ck =
     (case choiceDelta ck of
        None \<Rightarrow> ([], active)
      | Some d \<Rightarrow>
          (case d_tool_calls d of None \<Rightarrow> ([], active) | Some tcs \<Rightarrow> toolCallsLoop active tcs))"

definition reasoningOut :: "chat_chunk \<Rightarrow> chunk list" where
  "reasoningOut ck =
     (if truthy (reasoningText (choiceDelta ck))
      then [Reasoning (the (reasoningText (choiceDelta ck)))] else [])"

text \<open>Lines 212-217: the flush at \<open>finish_reason === "tool_calls"\<close>.\<close>

definition endOut :: "string list \<Rightarrow> chat_chunk \<Rightarrow> chunk list \<times> string list" where
  "endOut active ck =
     (if finishReason ck = Some ''tool_calls'' \<and> active \<noteq> []
      then (map ToolCallEnd active, []) else ([], active))"

definition usageOut :: "chat_chunk \<Rightarrow> chunk list" where
  "usageOut ck =
     (case ck_usage ck of
        None \<Rightarrow> []
      | Some u \<Rightarrow> [Usage (orZero (cu_prompt_tokens u)) (orZero (cu_completion_tokens u))])"

text \<open>The body of the \<open>for await\<close> loop after \<open>verifyFinishReason\<close>.\<close>

definition chatChunk :: "string list \<Rightarrow> chat_chunk \<Rightarrow> chunk list \<times> string list" where
  "chatChunk active ck =
     (let (tools, active1) = toolOut active ck;
          (ends, active2) = endOut active1 ck
      in (textOut ck @ tools @ reasoningOut ck @ ends @ usageOut ck, active2))"

text \<open>
  The loop. \<open>verifyFinishReason\<close> (imported from ./kilocode/verifyFinishReason) is a
  parameter: it returns the error it throws, if any; a throw leaves the generator at once.
\<close>

fun chatLoop :: "(chat_choice option \<Rightarrow> error option) \<Rightarrow> string list \<Rightarrow> chat_chunk list
    \<Rightarrow> chunk list \<times> string list \<times> error option" where
  "chatLoop verify active [] = ([], active, None)"
| "chatLoop verify active (ck # cks) =
     (case verify (firstChoice ck) of
        Some err \<Rightarrow> ([], active, Some err)
      | None \<Rightarrow>
          (let (out, active1) = chatChunk active ck;
               (rest, active2, err) = chatLoop verify active1 cks
           in (out @ rest, active2, err)))"

text \<open>Loop, then the finalization of lines 227-232, reached only when nothing was thrown
  (by \<open>verifyFinishReason\<close> or by the stream itself).\<close>

definition chatStream :: "(chat_choice option \<Rightarrow> error option) \<Rightarrow> chat_chunk raw_stream
    \<Rightarrow> chunk list \<times> error option" where
  "chatStream verify s =
     (case chatLoop verify [] (units s) of
        (out, active, Some err) \<Rightarrow> (out, Some err)
      | (out, active, None) \<Rightarrow>
          (case failure s of
             Some err \<Rightarrow> (out, Some err)
           | None \<Rightarrow> (out @ map ToolCallEnd active, None)))"

subsection \<open>Conversation formatting for the Responses API (lines 237-306)\<close>

datatype json = JNull | JBool bool | JNum int | JStr string | JArr "json list"
  | JObj "(string \<times> json) list"

record image_source =
  src_type :: string
  src_media_type :: string
  src_data :: string
  src_url :: "string option"

datatype result_part = ResultPart (rp_type: string) (rp_text: "string option")

datatype result_content = ResultString string | ResultParts "result_part list" | ResultAbsent

text \<open>A content block, by its \<open>type\<close>; \<open>OtherBlock\<close> carries any other type string.\<close>

datatype block =
    TextBlock string
  | ImageBlock image_source
  | ToolResultBlock string result_content
  | ToolUseBlock string string json
  | OtherBlock string

datatype msg_content = ContentString string | ContentBlocks "block list" | ContentOther

record message =
  m_type :: "string option"
  m_role :: "string option"
  m_content :: msg_content

datatype content_item = InputText string | InputImage "string option" | OutputText string

datatype input_item =
    PassThrough message
  | RoleItem string "content_item list"
  | FunctionCallOutput string string
  | FunctionCall string string string

definition imageUrl :: "image_source \<Rightarrow> string option" where
  "imageUrl s =
     (if src_type s = ''base64''
      then Some (''data:'' @ src_media_type s @ '';base64,'' @ src_data s)
      else src_url s)"

text \<open>Lines 260-263. \<open>Array.prototype.join\<close> renders an undefined element as the empty
  string.\<close>

definition partText :: "result_part \<Rightarrow> string" where
  "partText c =
     (if rp_type c = ''text'' then (case rp_text c of None \<Rightarrow> [] | Some t \<Rightarrow> t) else [])"

definition toolResultText :: "result_content \<Rightarrow> string" where
  "toolResultText c =
     (case c of
        ResultString s \<Rightarrow> s
      | ResultParts ps \<Rightarrow> concat (map partText ps)
      | ResultAbsent \<Rightarrow> [])"

text \<open>The two inner loops push onto \<open>content\<close> and onto \<open>toolResults\<close>/\<open>toolCalls\<close>.\<close>

fun userBlocks :: "(string \<Rightarrow> string) \<Rightarrow> content_item list \<Rightarrow> input_item list \<Rightarrow> block list
    \<Rightarrow> content_item list \<times> input_item list" where
  "userBlocks san content toolResults [] = (content, toolResults)"
| "userBlocks san content toolResults (TextBlock t # bs) =
     userBlocks san (content @ [InputText t]) toolResults bs"
| "userBlocks san content toolResults (ImageBlock s # bs) =
     userBlocks san (content @ [InputImage (imageUrl s)]) toolResults bs"
| "userBlocks san content toolResults (ToolResultBlock i c # bs) =
     userBlocks san content
       (toolResults @ [FunctionCallOutput (san i) (toolResultText c)]) bs"
| "userBlocks san content toolResults (b # bs) = userBlocks san content toolResults bs"

fun assistantBlocks :: "(string \<Rightarrow> string) \<Rightarrow> (json \<Rightarrow> string) \<Rightarrow> content_item list
    \<Rightarrow> input_item list \<Rightarrow> block list \<Rightarrow> content_item list \<times> input_item list" where
  "assistantBlocks san str content toolCalls [] = (content, toolCalls)"
| "assistantBlocks san str content toolCalls (TextBlock t # bs) =
     assistantBlocks san str (content @ [OutputText t]) toolCalls bs"
| "assistantBlocks san str content toolCalls (ToolUseBlock i n inp # bs) =
     assistantBlocks san str content (toolCalls @ [FunctionCall (san i) n (str inp)]) bs"
| "assistantBlocks san str content toolCalls (b # bs) =
     assistantBlocks san str content toolCalls bs"

text \<open>What one message pushes onto \<open>input\<close>.\<close>

definition formatMessage :: "(string \<Rightarrow> string) \<Rightarrow> (json \<Rightarrow> string) \<Rightarrow> message \<Rightarrow> input_item list" where
  "formatMessage san str m =
     (if m_type m = Some ''reasoning'' then [PassThrough m]
      else if m_role m = Some ''user'' then
        (let (content, toolResults) =
               (case m_content m of
                  ContentString s \<Rightarrow> ([InputText s], [])
                | ContentBlocks bs \<Rightarrow> userBlocks san [] [] bs
                | ContentOther \<Rightarrow> ([], []))
         in (if content \<noteq> [] then [RoleItem ''user'' content] else []) @ toolResults)
      else if m_role m = Some ''assistant'' then
        (let (content, toolCalls) =
               (case m_content m of
                  ContentString s \<Rightarrow> ([OutputText s], [])
                | ContentBlocks bs \<Rightarrow> assistantBlocks san str [] [] bs
                | ContentOther \<Rightarrow> ([], []))
         in (if content \<noteq> [] then [RoleItem ''assistant'' content] else []) @ toolCalls)
      else [])"

fun formatLoop :: "(string \<Rightarrow> string) \<Rightarrow> (json \<Rightarrow> string) \<Rightarrow> input_item list \<Rightarrow> message list
    \<Rightarrow> input_item list" where
  "formatLoop san str input [] = input"
| "formatLoop san str input (m # ms) = formatLoop san str (input @ formatMessage san str m) ms"

text \<open>\<open>sanitizeOpenAiCallId\<close> (../../utils/tool-id) and \<open>JSON.stringify\<close> are parameters;
  the system prompt is not used by the function.\<close>

definition formatFullConversation :: "(string \<Rightarrow> string) \<Rightarrow> (json \<Rightarrow> string) \<Rightarrow> string
    \<Rightarrow> message list \<Rightarrow> input_item list" where
  "formatFullConversation san str systemPrompt messages = formatLoop san str [] messages"

subsection \<open>Call metadata, model info and the requests sent\<close>

text \<open>\<open>tool_choice\<close> is a string (\<open>"none"\<close>, \<open>"auto"\<close>, \<open>"required"\<close>) or an object naming
  a function.\<close>

datatype tool_choice = ChoiceString string | ChoiceNamed string

record tool =
  tool_type :: string
  tool_name :: string

record metadata =
  md_tools :: "tool list option"
  md_toolProtocol :: "string option"
  md_tool_choice :: "tool_choice option"
  md_parallelToolCalls :: "bool option"

record model_info =
  mi_apiType :: "string option"
  mi_supportedApiTypes :: "string list option"
  mi_supportsNativeTools :: "bool option"

text \<open>Of the request bodies, the fields the properties below speak about are kept: the
  bearer token of the client that sends them, the tool fields, the formatted input.\<close>

record chat_request =
  cr_api_key :: string
  cr_system :: string
  cr_has_tools :: bool
  cr_tool_choice :: "tool_choice option"
  cr_parallel_tool_calls :: "bool option"

record responses_request =
  rr_api_key :: string
  rr_input :: "input_item list"
  rr_instructions :: string
  rr_tool_choice :: "tool_choice option"
  rr_parallel_tool_calls :: "bool option"

record prompt_request =
  pr_api_key :: string
  pr_prompt :: string

datatype request =
    ChatStreamRequest chat_request
  | ResponsesStreamRequest responses_request
  | ChatPromptRequest prompt_request
  | ResponsesPromptRequest prompt_request

fun apiKeyOf :: "request \<Rightarrow> string" where
  "apiKeyOf (ChatStreamRequest r) = cr_api_key r"
| "apiKeyOf (ResponsesStreamRequest r) = rr_api_key r"
| "apiKeyOf (ChatPromptRequest r) = pr_api_key r"
| "apiKeyOf (ResponsesPromptRequest r) = pr_api_key r"

record completion_choice =
  cm_content :: "string option"

record chat_completion =
  cc_choices :: "completion_choice list option"

record token =
  access_token :: "string option"

text \<open>
  The collaborators: \<open>OcaTokenManager.getValid()\<close> (the token, or null, or a throw),
  \<open>getModel().info\<close> (read from the options and the model cache), \<open>handleOpenAIError\<close>,
  \<open>verifyFinishReason\<close>, \<open>sanitizeOpenAiCallId\<close>, \<open>JSON.stringify\<close>, and what the SDK
  client answers to each of the four requests (a stream or a response, or a throw).
\<close>

record env =
  getValid :: "error + token option"
  getModelInfo :: model_info
  handleOpenAIError :: "error \<Rightarrow> string \<Rightarrow> error"
  verifyFinishReason :: "chat_choice option \<Rightarrow> error option"
  sanitizeOpenAiCallId :: "string \<Rightarrow> string"
  jsonStringify :: "json \<Rightarrow> string"
  chatCreate :: "chat_request \<Rightarrow> error + chat_chunk raw_stream"
  responsesCreate :: "responses_request \<Rightarrow> error + event raw_stream"
  chatComplete :: "prompt_request \<Rightarrow> error + chat_completion"
  responsesComplete :: "prompt_request \<Rightarrow> error + response_obj option"

subsection \<open>getClientWithBase and decorateErrorWithOpcRequestId\<close>

definition signInError :: error where
  "signInError =
     Error ''Please sign in with Oracle SSO at Settings > Providers > Oracle Code Assist.'' None"

text \<open>Lines 63-82. The client is represented by the \<open>apiKey\<close> it is built with.\<close>

definition getClientWithBase :: "env \<Rightarrow> error + string" where
  "getClientWithBase env =
     (case getValid env of
        Inl err \<Rightarrow> Inl err
      | Inr None \<Rightarrow> Inl signInError
      | Inr (Some tok) \<Rightarrow>
          if \<not> truthy (access_token tok) then Inl signInError
          else Inr (the (access_token tok)))"

text \<open>Lines 84-92; \<open>opc_request_id\<close> of the raw error is its header of that name.\<close>

definition decorateErrorWithOpcRequestId :: "error \<Rightarrow> error \<Rightarrow> error" where
  "decorateErrorWithOpcRequestId err processed =
     (if truthy (opc_request_id err)
      then Error (message processed @ '' opc-request-id: '' @ the (opc_request_id err))
             (opc_request_id processed)
      else processed)"

subsection \<open>createMessage\<close>

definition prefersResponses :: "model_info \<Rightarrow> bool" where
  "prefersResponses info =
     (mi_apiType info = Some ''responses'' \<or>
      (case mi_supportedApiTypes info of None \<Rightarrow> False | Some ts \<Rightarrow> ''RESPONSES'' \<in> set ts))"

text \<open>Lines 111-114.\<close>

definition resetCall :: "handler \<Rightarrow> handler" where
  "resetCall h = h\<lparr>lastResponseId := None, lastResponseOutput := None,
     pendingToolCallId := None, pendingToolCallName := None\<rparr>"

definition requestedToolChoice :: "metadata option \<Rightarrow> tool_choice option" where
  "requestedToolChoice md = (case md of None \<Rightarrow> None | Some m \<Rightarrow> md_tool_choice m)"

definition choiceTruthy :: "tool_choice option \<Rightarrow> bool" where
  "choiceTruthy c =
     (case c of None \<Rightarrow> False | Some (ChoiceString s) \<Rightarrow> s \<noteq> [] | Some (ChoiceNamed n) \<Rightarrow> True)"

text \<open>Lines 142-148.\<close>

definition useNativeTools :: "model_info \<Rightarrow> metadata option \<Rightarrow> bool" where
  "useNativeTools info md =
     ((case mi_supportsNativeTools info of None \<Rightarrow> False | Some b \<Rightarrow> b) \<and>
      (case md of
         None \<Rightarrow> False
       | Some m \<Rightarrow>
           (case md_tools m of None \<Rightarrow> False | Some ts \<Rightarrow> ts \<noteq> []) \<and>
           md_toolProtocol m \<noteq> Some ''xml'' \<and>
           md_tool_choice m \<noteq> Some (ChoiceString ''none'')))"

text \<open>Lines 150-154.\<close>

definition finalToolChoice :: "model_info \<Rightarrow> metadata option \<Rightarrow> tool_choice option" where
  "finalToolChoice info md =
     (let requested = requestedToolChoice md in
      if useNativeTools info md \<and>
         (\<not> choiceTruthy requested \<or> requested = Some (ChoiceString ''auto''))
      then Some (ChoiceString ''required'')
      else requested)"

text \<open>Lines 156-166.\<close>

definition buildChatRequest :: "string \<Rightarrow> model_info \<Rightarrow> string \<Rightarrow> metadata option \<Rightarrow> chat_request" where
  "buildChatRequest key info systemPrompt md =
     \<lparr>cr_api_key = key,
      cr_system = systemPrompt,
      cr_has_tools = useNativeTools info md,
      cr_tool_choice =
        (if choiceTruthy (finalToolChoice info md) then finalToolChoice info md else None),
      cr_parallel_tool_calls =
        (if useNativeTools info md
         then Some (case md of None \<Rightarrow> False
                    | Some m \<Rightarrow> (case md_parallelToolCalls m of None \<Rightarrow> False | Some b \<Rightarrow> b))
         else None)\<rparr>"

text \<open>Lines 339-384, the fields kept.\<close>

definition buildResponsesRequestBody :: "string \<Rightarrow> input_item list \<Rightarrow> string \<Rightarrow> metadata option
    \<Rightarrow> responses_request" where
  "buildResponsesRequestBody key formattedInput systemPrompt md =
     \<lparr>rr_api_key = key,
      rr_input = formattedInput,
      rr_instructions = systemPrompt,
      rr_tool_choice =
        (if choiceTruthy (requestedToolChoice md) then requestedToolChoice md else None),
      rr_parallel_tool_calls =
        (case md of
           None \<Rightarrow> None
         | Some m \<Rightarrow>
             if md_toolProtocol m = Some ''native''
             then Some (case md_parallelToolCalls m of None \<Rightarrow> False | Some b \<Rightarrow> b)
             else None)\<rparr>"

text \<open>What a call of \<open>createMessage\<close> does, consumed to its end: the chunks yielded, the
  error thrown if any, the requests sent, and the handler's fields afterwards.\<close>

record outcome =
  emitted :: "chunk list"
  thrown :: "error option"
  requests :: "request list"
  final :: handler

definition createMessage :: "env \<Rightarrow> handler \<Rightarrow> string \<Rightarrow> message list \<Rightarrow> metadata option \<Rightarrow> outcome" where
  "createMessage env h systemPrompt messages md =
     (case getClientWithBase env of
        Inl err \<Rightarrow> \<lparr>emitted = [], thrown = Some err, requests = [], final = h\<rparr>
      | Inr key \<Rightarrow>
          if prefersResponses (getModelInfo env) then
            (let h1 = resetCall h;
                 formattedInput =
                   formatFullConversation (sanitizeOpenAiCallId env) (jsonStringify env)
                     systemPrompt messages;
                 requestBody = buildResponsesRequestBody key formattedInput systemPrompt md
             in case responsesCreate env requestBody of
                  Inl err \<Rightarrow>
                    \<lparr>emitted = [],
                     thrown = Some (handleOpenAIError env err
                                ''Oracle Code Assist (Responses API)''),
                     requests = [ResponsesStreamRequest requestBody], final = h1\<rparr>
                | Inr s \<Rightarrow>
                    (let (out, h2) = responsesLoop h1 (units s)
                     in \<lparr>emitted = out,
                         thrown = map_option
                           (\<lambda>err. handleOpenAIError env err
                              ''Oracle Code Assist (Responses API)'') (failure s),
                         requests = [ResponsesStreamRequest requestBody], final = h2\<rparr>))
          else
            (let request = buildChatRequest key (getModelInfo env) systemPrompt md
             in case chatCreate env request of
                  Inl err \<Rightarrow>
                    \<lparr>emitted = [],
                     thrown = Some (decorateErrorWithOpcRequestId err
                                (handleOpenAIError env err ''Oracle Code Assist'')),
                     requests = [ChatStreamRequest request], final = h\<rparr>
                | Inr s \<Rightarrow>
                    (let (out, err) = chatStream (verifyFinishReason env) s
                     in \<lparr>emitted = out, thrown = err,
                         requests = [ChatStreamRequest request], final = h\<rparr>)))"

subsection \<open>completePrompt (lines 534-613)\<close>

text \<open>\<open>resp.choices?.[0]?.message?.content || ""\<close>\<close>

definition chatCompletionText :: "chat_completion \<Rightarrow> string" where
  "chatCompletionText resp =
     (case cc_choices resp of
        None \<Rightarrow> []
      | Some [] \<Rightarrow> []
      | Some (c # cs) \<Rightarrow> if truthy (cm_content c) then the (cm_content c) else [])"

text \<open>Lines 594-598: the inner loop returns at the first non-empty \<open>output_text\<close>.\<close>

fun firstOutputText :: "content_part list \<Rightarrow> string option" where
  "firstOutputText [] = None"
| "firstOutputText (c # cs) =
     (if cp_type c = Some ''output_text'' \<and> truthy (cp_text c) then cp_text c
      else firstOutputText cs)"

text \<open>Lines 592-600.\<close>

fun scanOutput :: "item list \<Rightarrow> string option" where
  "scanOutput [] = None"
| "scanOutput (it # its) =
     (if item_type it = Some ''message'' \<and> item_content it \<noteq> None then
        (case firstOutputText (the (item_content it)) of
           Some t \<Rightarrow> Some t
         | None \<Rightarrow> scanOutput its)
      else scanOutput its)"

text \<open>
  What \<open>completePrompt\<close> returns: declared a string, but the fallback of lines 604-606
  returns \<open>response.text\<close> as it is, so the value can be the configuration object.
\<close>

datatype prompt_value = StringValue string | ConfigValue

text \<open>Lines 590-608.\<close>

definition responseText :: "response_obj option \<Rightarrow> prompt_value" where
  "responseText response =
     (case (case response of None \<Rightarrow> None
            | Some r \<Rightarrow> (case r_output r of None \<Rightarrow> None | Some out \<Rightarrow> scanOutput out)) of
        Some t \<Rightarrow> StringValue t
      | None \<Rightarrow>
          (case response of
             None \<Rightarrow> StringValue []
           | Some r \<Rightarrow>
               (case r_text r of
                  None \<Rightarrow> StringValue []
                | Some (TextString s) \<Rightarrow> if s \<noteq> [] then StringValue s else StringValue []
                | Some TextConfig \<Rightarrow> ConfigValue)))"

definition promptUsesChat :: "model_info \<Rightarrow> bool" where
  "promptUsesChat info = (mi_apiType info = Some ''CHAT_COMPLETIONS'')"

record prompt_outcome =
  returned :: "error + prompt_value"
  sent :: "request list"

definition completePrompt :: "env \<Rightarrow> string \<Rightarrow> prompt_outcome" where
  "completePrompt env prompt =
     (case getClientWithBase env of
        Inl err \<Rightarrow> \<lparr>returned = Inl err, sent = []\<rparr>
      | Inr key \<Rightarrow>
          (let req = \<lparr>pr_api_key = key, pr_prompt = prompt\<rparr> in
           if promptUsesChat (getModelInfo env) then
             (case chatComplete env req of
                Inl err \<Rightarrow>
                  \<lparr>returned = Inl (decorateErrorWithOpcRequestId err
                       (handleOpenAIError env err ''Oracle Code Assist'')),
                   sent = [ChatPromptRequest req]\<rparr>
              | Inr resp \<Rightarrow>
                  \<lparr>returned = Inr (StringValue (chatCompletionText resp)),
                   sent = [ChatPromptRequest req]\<rparr>)
           else
             (case responsesComplete env req of
                Inl err \<Rightarrow>
                  \<lparr>returned = Inl (decorateErrorWithOpcRequestId err
                       (handleOpenAIError env err ''Oracle Code Assist'')),
                   sent = [ResponsesPromptRequest req]\<rparr>
              | Inr response \<Rightarrow>
                  \<lparr>returned = Inr (responseText response),
                   sent = [ResponsesPromptRequest req]\<rparr>)))"

subsection \<open>Calls sharing one handler instance\<close>

text \<open>
  Two generators of \<open>createMessage\<close> on the same handler run interleaved at their
  suspension points. On the Responses path a call first resets the four instance fields
  (\<open>Begin\<close>) and then processes the events it receives (\<open>Feed\<close>); a schedule lists which call
  takes which step, and every chunk is tagged with the call that yields it.
\<close>

datatype action = Begin | Feed event

fun interleaved :: "handler \<Rightarrow> (nat \<times> action) list \<Rightarrow> (nat \<times> chunk) list \<times> handler" where
  "interleaved h [] = ([], h)"
| "interleaved h ((c, Begin) # rest) = interleaved (resetCall h) rest"
| "interleaved h ((c, Feed e) # rest) =
     (let (out, h1) = processResponsesEvent h e;
          (more, h2) = interleaved h1 rest
      in (map (Pair c) out @ more, h2))"

definition yieldedBy :: "nat \<Rightarrow> (nat \<times> chunk) list \<Rightarrow> chunk list" where
  "yieldedBy c xs = map snd (filter (\<lambda>p. fst p = c) xs)"

subsection \<open>A concrete environment for the examples\<close>

text \<open>A signed-in user, a model without declared API type, collaborators that answer
  with empty streams and never throw. The examples below override single fields.\<close>

definition baseEnv :: env where
  "baseEnv =
     \<lparr>getValid = Inr (Some \<lparr>access_token = Some ''tok''\<rparr>),
      getModelInfo = \<lparr>mi_apiType = None, mi_supportedApiTypes = None,
        mi_supportsNativeTools = Some True\<rparr>,
      handleOpenAIError = (\<lambda>err provider. err),
      verifyFinishReason = (\<lambda>choice. None),
      sanitizeOpenAiCallId = (\<lambda>i. i),
      jsonStringify = (\<lambda>j. ''{}''),
      chatCreate = (\<lambda>r. Inr (RawStream [] None)),
      responsesCreate = (\<lambda>r. Inr (RawStream [] None)),
      chatComplete = (\<lambda>r. Inr \<lparr>cc_choices = None\<rparr>),
      responsesComplete = (\<lambda>r. Inr None)\<rparr>"

definition responsesInfo :: model_info where
  "responsesInfo = \<lparr>mi_apiType = Some ''responses'', mi_supportedApiTypes = None,
     mi_supportsNativeTools = Some True\<rparr>"

text \<open>Metadata asking for one native tool with the given tool choice.\<close>

definition toolsMd :: "tool_choice option \<Rightarrow> metadata" where
  "toolsMd c = \<lparr>md_tools = Some [\<lparr>tool_type = ''function'', tool_name = ''lookup''\<rparr>],
     md_toolProtocol = Some ''native'', md_tool_choice = c, md_parallelToolCalls = None\<rparr>"

text \<open>A chat stream of two chunks: text \<open>Hi\<close>, then an empty text delta.\<close>

definition hiStream :: "chat_chunk raw_stream" where
  "hiStream = RawStream
     [deltaChunk (noDelta\<lparr>d_content := Some ''Hi''\<rparr>) None None,
      deltaChunk (noDelta\<lparr>d_content := Some []\<rparr>) None None] None"

subsection \<open>Reference descriptions used by the amended statements\<close>

text \<open>
  These definitions do not come from the source. They describe, in the words of the
  amended claims, the layout \<open>formatFullConversation\<close> produces and the texts a Responses
  result holds; the theorems compare the source's loops with them.

  The grouped layout of one message: a \<open>reasoning\<close> message is passed through; otherwise
  the text and image blocks of the message, in block order, form one role-bearing item
  (omitted when there are none), and the tool items follow it, in block order.
\<close>

fun userContentOf :: "block \<Rightarrow> content_item option" where
  "userContentOf (TextBlock t) = Some (InputText t)"
| "userContentOf (ImageBlock s) = Some (InputImage (imageUrl s))"
| "userContentOf b = None"

fun userToolItemOf :: "(string \<Rightarrow> string) \<Rightarrow> block \<Rightarrow> input_item option" where
  "userToolItemOf san (ToolResultBlock i c) = Some (FunctionCallOutput (san i) (toolResultText c))"
| "userToolItemOf san b = None"

fun assistantContentOf :: "block \<Rightarrow> content_item option" where
  "assistantContentOf (TextBlock t) = Some (OutputText t)"
| "assistantContentOf b = None"

fun assistantToolItemOf :: "(string \<Rightarrow> string) \<Rightarrow> (json \<Rightarrow> string) \<Rightarrow> block \<Rightarrow> input_item option" where
  "assistantToolItemOf san str (ToolUseBlock i n inp) = Some (FunctionCall (san i) n (str inp))"
| "assistantToolItemOf san str b = None"

definition roleItem :: "string \<Rightarrow> content_item list \<Rightarrow> input_item list" where
  "roleItem r content = (if content = [] then [] else [RoleItem r content])"

definition groupedItems :: "(string \<Rightarrow> string) \<Rightarrow> (json \<Rightarrow> string) \<Rightarrow> message \<Rightarrow> input_item list" where
  "groupedItems san str m =
     (if m_type m = Some ''reasoning'' then [PassThrough m]
      else if m_role m = Some ''user'' then
        (case m_content m of
           ContentString s \<Rightarrow> [RoleItem ''user'' [InputText s]]
         | ContentBlocks bs \<Rightarrow>
             roleItem ''user'' (List.map_filter userContentOf bs)
             @ List.map_filter (userToolItemOf san) bs
         | ContentOther \<Rightarrow> [])
      else if m_role m = Some ''assistant'' then
        (case m_content m of
           ContentString s \<Rightarrow> [RoleItem ''assistant'' [OutputText s]]
         | ContentBlocks bs \<Rightarrow>
             roleItem ''assistant'' (List.map_filter assistantContentOf bs)
             @ List.map_filter (assistantToolItemOf san str) bs
         | ContentOther \<Rightarrow> [])
      else [])"

text \<open>The non-empty \<open>output_text\<close> parts of the \<open>message\<close> items of a Responses result, in
  order.\<close>

definition partOutputText :: "content_part \<Rightarrow> string option" where
  "partOutputText c =
     (if cp_type c = Some ''output_text'' \<and> truthy (cp_text c) then cp_text c else None)"

definition itemOutputTexts :: "item \<Rightarrow> string list" where
  "itemOutputTexts it =
     (if item_type it = Some ''message''
      then (case item_content it of None \<Rightarrow> [] | Some cs \<Rightarrow> List.map_filter partOutputText cs)
      else [])"

definition allOutputTexts :: "response_obj \<Rightarrow> string list" where
  "allOutputTexts r = (case r_output r of None \<Rightarrow> [] | Some out \<Rightarrow> concat (map itemOutputTexts out))"

text \<open>The events on which \<open>processResponsesEvent\<close> yields a \<open>Usage\<close> chunk (whatever the
  handler's fields are, see \<open>event_usage_any_handler\<close>).\<close>

definition yieldsUsage :: "event \<Rightarrow> bool" where
  "yieldsUsage e = list_ex isUsage (fst (processResponsesEvent newHandler e))"

text \<open>What one chat chunk yields before its \<open>Usage\<close>.\<close>

definition chunkBody :: "string list \<Rightarrow> chat_chunk \<Rightarrow> chunk list" where
  "chunkBody a ck = textOut ck @ fst (toolOut a ck) @ reasoningOut ck
      @ fst (endOut (snd (toolOut a ck)) ck)"

text \<open>The non-empty tool-call ids a chat chunk announces, and the side condition of the
  amended C1: after a chunk with \<open>finish_reason = tool_calls\<close>, no later chunk announces
  the id \<open>i\<close> again.\<close>

definition fragmentIds :: "tool_call_delta list \<Rightarrow> string list" where
  "fragmentIds tcs = map (\<lambda>tc. the (tc_id tc)) (filter (\<lambda>tc. truthy (tc_id tc)) tcs)"

definition chunkIds :: "chat_chunk \<Rightarrow> string list" where
  "chunkIds ck =
     (case choiceDelta ck of
        None \<Rightarrow> []
      | Some d \<Rightarrow> (case d_tool_calls d of None \<Rightarrow> [] | Some tcs \<Rightarrow> fragmentIds tcs))"

fun noReannounce :: "string \<Rightarrow> chat_chunk list \<Rightarrow> bool" where
  "noReannounce i [] = True"
| "noReannounce i (ck # cks) =
     ((finishReason ck \<noteq> Some ''tool_calls'' \<or> i \<notin> set (concat (map chunkIds cks)))
      \<and> noReannounce i cks)"

text \<open>Bookkeeping over the yielded chunks: a \<open>ToolCallPartial\<close> with a non-empty id opens
  the id, a \<open>ToolCallEnd\<close> closes it. \<open>openIds S cs\<close> are the ids open after \<open>cs\<close>, starting
  from \<open>S\<close>.\<close>

fun track :: "chunk \<Rightarrow> string set \<Rightarrow> string set" where
  "track (ToolCallPartial ix i n a) S = (if truthy i then insert (the i) S else S)"
| "track (ToolCallEnd i) S = S - {i}"
| "track c S = S"

definition openIds :: "string set \<Rightarrow> chunk list \<Rightarrow> string set" where
  "openIds S cs = fold track cs S"

text \<open>The schedule of a call \<open>c\<close> that runs with no other call in between: its reset, then
  its events.\<close>

definition alone :: "nat \<Rightarrow> event list \<Rightarrow> (nat \<times> action) list" where
  "alone c es = (c, Begin) # map (\<lambda>e. (c, Feed e)) es"

text \<open>The first truthy value of a list of optional strings, in order: the resolution
  order of C4 in the words of the claim.\<close>

fun firstTruthy :: "string option list \<Rightarrow> string option" where
  "firstTruthy [] = None"
| "firstTruthy (x # xs) = (if truthy x then x else firstTruthy xs)"

subsection \<open>Concrete inputs of the examples\<close>

text \<open>A chat chunk with one tool-call fragment that carries arguments but neither id nor
  name.\<close>

definition anonFragment :: chat_chunk where
  "anonFragment = deltaChunk
     (noDelta\<lparr>d_tool_calls := Some [toolDelta 0 None None (Some ''{}'')]\<rparr>) None None"

text \<open>A user message whose tool result comes before its text.\<close>

definition resultThenText :: message where
  "resultThenText = \<lparr>m_type = None, m_role = Some ''user'',
     m_content = ContentBlocks [ToolResultBlock ''c1'' (ResultString ''ok''), TextBlock ''next'']\<rparr>"

text \<open>A Responses result whose message holds two \<open>output_text\<close> parts.\<close>

definition twoTexts :: response_obj where
  "twoTexts = \<lparr>r_output = Some [noItem\<lparr>item_type := Some ''message'',
       item_content := Some [\<lparr>cp_type = Some ''output_text'', cp_text = Some ''Hello, ''\<rparr>,
                             \<lparr>cp_type = Some ''output_text'', cp_text = Some ''world''\<rparr>]\<rparr>],
     r_id = None, r_usage = None, r_text = None\<rparr>"

text \<open>A Responses result without message items and without \<open>text\<close> member.\<close>

definition noTexts :: response_obj where
  "noTexts = \<lparr>r_output = Some [noItem\<lparr>item_type := Some ''reasoning''\<rparr>],
     r_id = None, r_usage = None, r_text = None\<rparr>"

text \<open>A chat stream whose two chunks both carry usage, the first with a tool-call id that
  no \<open>finish_reason\<close> closes.\<close>

definition usageTwice :: "chat_chunk raw_stream" where
  "usageTwice = RawStream
     [deltaChunk (noDelta\<lparr>d_tool_calls := Some [toolDelta 0 (Some ''c1'') (Some ''lookup'') (Some ''{}'')]\<rparr>)
        None (Some \<lparr>cu_prompt_tokens = Some 10, cu_completion_tokens = Some 5\<rparr>),
      \<lparr>ck_choices = Some [], ck_usage = Some \<lparr>cu_prompt_tokens = Some 10, cu_completion_tokens = Some 6\<rparr>\<rparr>]
     None"

text \<open>The chat stream of the specification's scenario: text, two fragments of call
  \<open>c1\<close>, \<open>finish_reason = tool_calls\<close>, usage.\<close>

definition scenarioStream :: "chat_chunk raw_stream" where
  "scenarioStream = RawStream
     [deltaChunk (noDelta\<lparr>d_content := Some ''Hi''\<rparr>) None None,
      deltaChunk (noDelta\<lparr>d_tool_calls :=
        Some [toolDelta 0 (Some ''c1'') (Some ''lookup'') (Some ''{q:'')]\<rparr>) None None,
      deltaChunk (noDelta\<lparr>d_tool_calls :=
        Some [toolDelta 0 (Some ''c1'') None (Some ''x}'')]\<rparr>) None None,
      deltaChunk noDelta (Some ''tool_calls'') None,
      \<lparr>ck_choices = Some [],
       ck_usage = Some \<lparr>cu_prompt_tokens = Some 10, cu_completion_tokens = Some 5\<rparr>\<rparr>]
     None"

text \<open>A Responses stream: a text delta, then \<open>response.completed\<close> with usage.\<close>

definition completedStream :: "event raw_stream" where
  "completedStream = RawStream
     [noEvent\<lparr>ev_type := Some ''response.output_text.delta'', ev_delta := Some ''Hi''\<rparr>,
      noEvent\<lparr>ev_type := Some ''response.completed'',
        ev_response := Some \<lparr>r_output = None, r_id = Some ''r1'',
          r_usage = Some \<lparr>input_tokens = Some 10, output_tokens = Some 5,
            prompt_tokens = None, completion_tokens = None\<rparr>,
          r_text = None\<rparr>\<rparr>]
     None"

text \<open>A Responses stream with a function call: the item is added, one arguments delta,
  the arguments are done. A chat stream that announces \<open>c1\<close> again after the flush. A chat
  stream that ends after one fragment of call \<open>z9\<close>, with no finish reason.\<close>

definition pendingCallStream :: "event raw_stream" where
  "pendingCallStream = RawStream
     [noEvent\<lparr>ev_type := Some ''response.output_item.added'',
        ev_item := Some (noItem\<lparr>item_type := Some ''function_call'',
          item_call_id := Some ''t1'', item_name := Some ''search''\<rparr>)\<rparr>,
      noEvent\<lparr>ev_type := Some ''response.function_call_arguments.delta'',
        ev_call_id := Some ''t1'', ev_delta := Some ''{}''\<rparr>,
      noEvent\<lparr>ev_type := Some ''response.function_call_arguments.done'',
        ev_call_id := Some ''t1'', ev_arguments := Some ''{}''\<rparr>]
     None"

definition reannounced :: "chat_chunk raw_stream" where
  "reannounced = RawStream
     [deltaChunk (noDelta\<lparr>d_tool_calls :=
        Some [toolDelta 0 (Some ''c1'') (Some ''lookup'') (Some ''{'')]\<rparr>) (Some ''tool_calls'') None,
      deltaChunk (noDelta\<lparr>d_tool_calls :=
        Some [toolDelta 0 (Some ''c1'') None (Some ''}'')]\<rparr>) None None]
     None"

definition abruptStream :: "chat_chunk raw_stream" where
  "abruptStream = RawStream
     [deltaChunk (noDelta\<lparr>d_tool_calls :=
        Some [toolDelta 0 (Some ''z9'') (Some ''lookup'') (Some ''{'')]\<rparr>) None None]
     None"

text \<open>The item-added event of call \<open>t1\<close>, and an arguments delta that carries neither call
  id nor name; a Responses stream made of that delta alone.\<close>

definition addedT1 :: event where
  "addedT1 = noEvent\<lparr>ev_type := Some ''response.output_item.added'',
        ev_item := Some (noItem\<lparr>item_type := Some ''function_call'',
          item_call_id := Some ''t1'', item_name := Some ''search''\<rparr>)\<rparr>"

definition anonDelta :: event where
  "anonDelta = noEvent\<lparr>ev_type := Some ''response.function_call_arguments.delta'',
        ev_delta := Some ''{}''\<rparr>"

definition anonStream :: "event raw_stream" where
  "anonStream = RawStream [anonDelta] None"

text \<open>The item-added event of a second call \<open>t2\<close>, and an arguments delta that names
  \<open>t2\<close> and \<open>lookup\<close> itself.\<close>

definition addedT2 :: event where
  "addedT2 = noEvent\<lparr>ev_type := Some ''response.output_item.added'',
        ev_item := Some (noItem\<lparr>item_type := Some ''function_call'',
          item_call_id := Some ''t2'', item_name := Some ''lookup''\<rparr>)\<rparr>"

definition deltaT2 :: event where
  "deltaT2 = noEvent\<lparr>ev_type := Some ''response.function_call_arguments.delta'',
        ev_call_id := Some ''t2'', ev_name := Some ''lookup'', ev_delta := Some ''{}''\<rparr>"

section \<open>Properties\<close>

lemma truthy_simps [simp]:
  "truthy None = False" "truthy (Some s) = (s \<noteq> [])"
  by (simp_all add: truthy_def)

lemma truthy_the: "truthy s \<Longrightarrow> the s \<noteq> []"
  by (cases s) simp_all

lemma truthy_Some: "truthy s \<Longrightarrow> s = Some (the s)"
  by (cases s) simp_all

lemma getClient_key_nonempty: "getClientWithBase env = Inr key \<Longrightarrow> key \<noteq> []"
  by (auto simp: getClientWithBase_def dest: truthy_the split: sum.splits option.splits if_splits)

lemma getClient_no_credential:
  "getValid env = Inr None \<or> (\<exists>tok. getValid env = Inr (Some tok) \<and> \<not> truthy (access_token tok))
   \<Longrightarrow> getClientWithBase env = Inl signInError"
  by (auto simp: getClientWithBase_def split: sum.splits option.splits if_splits)

lemma createMessage_requests_key:
  "r \<in> set (requests (createMessage env h sys msgs md)) \<Longrightarrow> apiKeyOf r \<noteq> []"
  by (auto simp: createMessage_def Let_def buildChatRequest_def buildResponsesRequestBody_def
      dest: getClient_key_nonempty split: sum.splits prod.splits if_splits)

lemma completePrompt_requests_key:
  "r \<in> set (sent (completePrompt env p)) \<Longrightarrow> apiKeyOf r \<noteq> []"
  by (auto simp: completePrompt_def Let_def 
      dest: getClient_key_nonempty split: sum.splits prod.splits if_splits)

subsection \<open>Unfolding bundles for evaluating concrete inputs\<close>

lemmas chat_eval =
  chatStream_def chatChunk_def textOut_def toolOut_def reasoningOut_def endOut_def usageOut_def
  choiceDelta_def firstChoice_def finishReason_def reasoningText_def deltaChunk_def noDelta_def
  toolDelta_def setAdd_def tcName_def tcArguments_def orZero_def Let_def

lemmas responses_eval =
  processResponsesEvent_def captureResponse_def isTextDelta_def isReasoningDelta_def
  isRefusalDelta_def isToolArgsDelta_def isToolArgsDone_def isOutputItem_def isResponseDone_def
  toolArgsDelta_def resolveCallId_def resolveName_def jsOr_def orZero_def nullish_def
  itemChunks_def recordIdentity_def isCallItem_def itemCallId_def itemName_def itemFnName_def
  itemFnArguments_def usageChunk_def noEvent_def noItem_def newHandler_def resetCall_def Let_def

lemmas create_eval =
  createMessage_def getClientWithBase_def prefersResponses_def buildChatRequest_def
  buildResponsesRequestBody_def baseEnv_def responsesInfo_def

subsection \<open>createMessage, case by case\<close>

lemma createMessage_no_client:
  "getClientWithBase env = Inl err \<Longrightarrow>
   createMessage env h sys msgs md = \<lparr>emitted = [], thrown = Some err, requests = [], final = h\<rparr>"
  by (simp add: createMessage_def)

lemma createMessage_responses:
  assumes "getClientWithBase env = Inr key" and "prefersResponses (getModelInfo env)"
    and "responsesCreate env (buildResponsesRequestBody key
           (formatFullConversation (sanitizeOpenAiCallId env) (jsonStringify env) sys msgs)
           sys md) = Inr s"
  shows "emitted (createMessage env h sys msgs md) = fst (responsesLoop (resetCall h) (units s))"
    and "final (createMessage env h sys msgs md) = snd (responsesLoop (resetCall h) (units s))"
  using assms by (simp_all add: createMessage_def Let_def split: prod.splits)

lemma createMessage_responses_refused:
  assumes "getClientWithBase env = Inr key" and "prefersResponses (getModelInfo env)"
    and "responsesCreate env (buildResponsesRequestBody key
           (formatFullConversation (sanitizeOpenAiCallId env) (jsonStringify env) sys msgs)
           sys md) = Inl err"
  shows "emitted (createMessage env h sys msgs md) = []"
  using assms by (simp add: createMessage_def Let_def)

lemma createMessage_chat:
  assumes "getClientWithBase env = Inr key" and "\<not> prefersResponses (getModelInfo env)"
    and "chatCreate env (buildChatRequest key (getModelInfo env) sys md) = Inr s"
  shows "emitted (createMessage env h sys msgs md) = fst (chatStream (verifyFinishReason env) s)"
    and "thrown (createMessage env h sys msgs md) = snd (chatStream (verifyFinishReason env) s)"
  using assms by (simp_all add: createMessage_def Let_def split: prod.splits)

lemma createMessage_chat_refused:
  assumes "getClientWithBase env = Inr key" and "\<not> prefersResponses (getModelInfo env)"
    and "chatCreate env (buildChatRequest key (getModelInfo env) sys md) = Inl err"
  shows "emitted (createMessage env h sys msgs md) = []"
  using assms by (simp add: createMessage_def Let_def)

subsection \<open>The loops, one step at a time\<close>

lemma toolCallsLoop_forwards:
  "fst (toolCallsLoop active tcs) =
     map (\<lambda>tc. ToolCallPartial (tc_index tc) (tc_id tc) (tcName tc) (tcArguments tc)) tcs"
  by (induction tcs arbitrary: active) (simp_all add: Let_def case_prod_unfold)

lemma toolCallsLoop_no_ids:
  "\<forall>tc \<in> set tcs. \<not> truthy (tc_id tc) \<Longrightarrow> snd (toolCallsLoop active tcs) = active"
  by (induction tcs arbitrary: active) (simp_all add: Let_def case_prod_unfold)

lemma chatLoop_Cons_ok:
  "v (firstChoice ck) = None \<Longrightarrow>
   fst (chatLoop v a (ck # cks)) = fst (chatChunk a ck) @ fst (chatLoop v (snd (chatChunk a ck)) cks)"
  by (simp add: case_prod_unfold Let_def)

lemma chatLoop_Cons_throw:
  "v (firstChoice ck) = Some err \<Longrightarrow> chatLoop v a (ck # cks) = ([], a, Some err)"
  by simp

lemma responsesLoop_Cons_fst:
  "fst (responsesLoop h (e # es)) =
     fst (processResponsesEvent h e) @ fst (responsesLoop (snd (processResponsesEvent h e)) es)"
  by (simp add: case_prod_unfold Let_def)

subsection \<open>C4: identity fallback scenario\<close>

lemma captureResponse_pending:
  "pendingToolCallId (captureResponse h e) = pendingToolCallId h
   \<and> pendingToolCallName (captureResponse h e) = pendingToolCallName h"
  by (simp add: captureResponse_def Let_def split: option.splits)

lemma toolArgsDelta_step:
  "isToolArgsDelta (ev_type e) \<Longrightarrow>
   processResponsesEvent h e = (toolArgsDelta (captureResponse h e) e, captureResponse h e)"
proof -
  assume a: "isToolArgsDelta (ev_type e)"
  then have "\<not> isTextDelta (ev_type e) \<and> \<not> isReasoningDelta (ev_type e) \<and> \<not> isRefusalDelta (ev_type e)"
    by (auto simp: isToolArgsDelta_def isTextDelta_def isReasoningDelta_def isRefusalDelta_def)
  with a show ?thesis by (simp add: processResponsesEvent_def Let_def)
qed

lemma outputItem_step:
  "isOutputItem (ev_type e) \<Longrightarrow>
   processResponsesEvent h e =
     (case ev_item e of
        None \<Rightarrow> ([], captureResponse h e)
      | Some it \<Rightarrow> (itemChunks (ev_type e) it, recordIdentity (captureResponse h e) it))"
proof -
  assume a: "isOutputItem (ev_type e)"
  then have "\<not> isTextDelta (ev_type e) \<and> \<not> isReasoningDelta (ev_type e) \<and> \<not> isRefusalDelta (ev_type e)
      \<and> \<not> isToolArgsDelta (ev_type e) \<and> \<not> isToolArgsDone (ev_type e)"
    by (auto simp: isOutputItem_def isToolArgsDelta_def isTextDelta_def isReasoningDelta_def
        isRefusalDelta_def isToolArgsDone_def)
  with a show ?thesis by (simp add: processResponsesEvent_def Let_def)
qed

lemma other_step_state:
  "\<not> isOutputItem (ev_type e) \<Longrightarrow> snd (processResponsesEvent h e) = captureResponse h e"
  by (simp add: processResponsesEvent_def Let_def split: option.splits)

lemma other_step_pending:
  "\<not> isOutputItem (ev_type e) \<Longrightarrow>
   pendingToolCallId (snd (processResponsesEvent h e)) = pendingToolCallId h
   \<and> pendingToolCallName (snd (processResponsesEvent h e)) = pendingToolCallName h"
  by (simp add: other_step_state captureResponse_pending)

lemma resolved_identity:
  "resolveCallId h e = firstTruthy [ev_call_id e, ev_tool_call_id e, ev_id e, pendingToolCallId h]"
  "resolveName h e = firstTruthy [ev_name e, ev_function_name e, pendingToolCallName h]"
  by (simp_all add: resolveCallId_def resolveName_def jsOr_def)

lemma firstTruthy_cases: "firstTruthy xs = None \<or> (\<exists>s. firstTruthy xs = Some s \<and> s \<noteq> [])"
  by (induction xs) (auto dest: truthy_Some truthy_the)

lemma delta_identity:
  assumes t: "isToolArgsDelta (ev_type e)"
  shows "fst (processResponsesEvent h e) =
        (case (firstTruthy [ev_call_id e, ev_tool_call_id e, ev_id e, pendingToolCallId h], firstTruthy [ev_name e, ev_function_name e, pendingToolCallName h]) of
           (Some i, Some n) \<Rightarrow>
             [ToolCallPartial (Some (case ev_index e of None \<Rightarrow> 0 | Some ix \<Rightarrow> ix)) (Some i) (Some n)
                (if truthy (ev_delta e) then ev_delta e else ev_arguments e)]
         | _ \<Rightarrow> [])"
proof -
  define i where "i = firstTruthy [ev_call_id e, ev_tool_call_id e, ev_id e, pendingToolCallId h]"
  define n where "n = firstTruthy [ev_name e, ev_function_name e, pendingToolCallName h]"
  have r: "resolveCallId (captureResponse h e) e = i" "resolveName (captureResponse h e) e = n"
    using captureResponse_pending[of h e] by (simp_all only: resolved_identity i_def n_def)
  have o: "fst (processResponsesEvent h e) =
        (if truthy n \<and> truthy i
         then [ToolCallPartial (Some (orZero (ev_index e))) i n (jsOr (ev_delta e) (ev_arguments e))]
         else [])"
    unfolding toolArgsDelta_step[OF t] by (simp only: fst_conv toolArgsDelta_def Let_def r)
  have ci: "i = None \<or> (\<exists>s. i = Some s \<and> s \<noteq> [])"
    unfolding i_def by (rule firstTruthy_cases)
  have cn: "n = None \<or> (\<exists>s. n = Some s \<and> s \<noteq> [])"
    unfolding n_def by (rule firstTruthy_cases)
  have "fst (processResponsesEvent h e) =
        (case (i, n) of
           (Some i, Some n) \<Rightarrow>
             [ToolCallPartial (Some (case ev_index e of None \<Rightarrow> 0 | Some ix \<Rightarrow> ix)) (Some i) (Some n)
                (if truthy (ev_delta e) then ev_delta e else ev_arguments e)]
         | _ \<Rightarrow> [])"
    using ci cn unfolding o by (auto simp: orZero_def jsOr_def)
  then show ?thesis unfolding i_def n_def .
qed
text \<open>
  C4. In the event-stream protocol, \<open>response.output_item.added\<close> carrying a function_call
  item with call_id t1 and name search, followed by an arguments delta with call_id t1,
  delta \<open>{}\<close> and no name, emits exactly \<open>ToolCallPartial\<close> with id t1, name search and
  arguments \<open>{}\<close> (under either spelling of the delta event); a delta that names another
  call itself is emitted under its own identity, and after two calls were recorded a delta
  without identity takes the later one.

  In general, for every handler state and every arguments delta: the id emitted is the
  first truthy one of the event's \<open>call_id\<close>, \<open>tool_call_id\<close>, \<open>id\<close> and the pending id, the
  name is the first truthy one of the event's \<open>name\<close>, \<open>function_name\<close> and the pending
  name, and nothing is emitted unless both exist. The pending identity is the one of the
  most recent output-item event that carried a function-call item with a truthy call id:
  such an event overwrites it, every other event leaves it as it is.
\<close>

theorem C4_fallback_scenario:
  "(fst (responsesLoop newHandler
     [noEvent\<lparr>ev_type := Some ''response.output_item.added'',
        ev_item := Some (noItem\<lparr>item_type := Some ''function_call'',
          item_call_id := Some ''t1'', item_name := Some ''search''\<rparr>)\<rparr>,
      noEvent\<lparr>ev_type := Some ''response.tool_call_arguments.delta'',
        ev_call_id := Some ''t1'', ev_delta := Some ''{}''\<rparr>])
   = [ToolCallPartial (Some 0) (Some ''t1'') (Some ''search'') (Some ''{}'')]
   \<and> fst (responsesLoop newHandler
     [noEvent\<lparr>ev_type := Some ''response.output_item.added'',
        ev_item := Some (noItem\<lparr>item_type := Some ''function_call'',
          item_call_id := Some ''t1'', item_name := Some ''search''\<rparr>)\<rparr>,
      noEvent\<lparr>ev_type := Some ''response.function_call_arguments.delta'',
        ev_call_id := Some ''t1'', ev_delta := Some ''{}''\<rparr>])
   = [ToolCallPartial (Some 0) (Some ''t1'') (Some ''search'') (Some ''{}'')]
   \<and> fst (responsesLoop newHandler
     [noEvent\<lparr>ev_type := Some ''response.output_item.added'',
        ev_item := Some (noItem\<lparr>item_type := Some ''function_call'',
          item_call_id := Some ''t1'', item_name := Some ''search''\<rparr>)\<rparr>,
      noEvent\<lparr>ev_type := Some ''response.function_call_arguments.delta'',
        ev_name := Some ''lookup'', ev_delta := Some ''{}''\<rparr>])
   = [ToolCallPartial (Some 0) (Some ''t1'') (Some ''lookup'') (Some ''{}'')]
   \<and> fst (responsesLoop newHandler [addedT1, deltaT2])
     = [ToolCallPartial (Some 0) (Some ''t2'') (Some ''lookup'') (Some ''{}'')]
   \<and> fst (responsesLoop newHandler [addedT1, addedT2, anonDelta])
     = [ToolCallPartial (Some 0) (Some ''t2'') (Some ''lookup'') (Some ''{}'')])
   \<and> ((isToolArgsDelta (ev_type e) \<longrightarrow>
      fst (processResponsesEvent h e) =
        (case (firstTruthy [ev_call_id e, ev_tool_call_id e, ev_id e, pendingToolCallId h],
               firstTruthy [ev_name e, ev_function_name e, pendingToolCallName h]) of
           (Some i, Some n) \<Rightarrow>
             [ToolCallPartial (Some (case ev_index e of None \<Rightarrow> 0 | Some ix \<Rightarrow> ix)) (Some i) (Some n)
                (if truthy (ev_delta e) then ev_delta e else ev_arguments e)]
         | _ \<Rightarrow> []))
   \<and> (isOutputItem (ev_type e) \<and> ev_item e = Some it \<and> isCallItem it \<and> truthy (itemCallId it) \<longrightarrow>
        pendingToolCallId (snd (processResponsesEvent h e)) = itemCallId it
        \<and> pendingToolCallName (snd (processResponsesEvent h e)) = itemName it)
   \<and> (\<not> (isOutputItem (ev_type e)
          \<and> (\<exists>x. ev_item e = Some x \<and> isCallItem x \<and> truthy (itemCallId x))) \<longrightarrow>
        pendingToolCallId (snd (processResponsesEvent h e)) = pendingToolCallId h
        \<and> pendingToolCallName (snd (processResponsesEvent h e)) = pendingToolCallName h)
   \<and> (truthy (itemCallId it) \<longrightarrow>
        itemCallId it = firstTruthy [item_call_id it, item_tool_call_id it, item_id it])
   \<and> (truthy (itemName it) \<longrightarrow>
        itemName it = firstTruthy [item_name it,
          (case item_function it of None \<Rightarrow> None | Some f \<Rightarrow> fn_name f), item_function_name it]))"
proof -
  have scenario: "fst (responsesLoop newHandler
     [noEvent\<lparr>ev_type := Some ''response.output_item.added'',
        ev_item := Some (noItem\<lparr>item_type := Some ''function_call'',
          item_call_id := Some ''t1'', item_name := Some ''search''\<rparr>)\<rparr>,
      noEvent\<lparr>ev_type := Some ''response.tool_call_arguments.delta'',
        ev_call_id := Some ''t1'', ev_delta := Some ''{}''\<rparr>])
   = [ToolCallPartial (Some 0) (Some ''t1'') (Some ''search'') (Some ''{}'')]
   \<and> fst (responsesLoop newHandler
     [noEvent\<lparr>ev_type := Some ''response.output_item.added'',
        ev_item := Some (noItem\<lparr>item_type := Some ''function_call'',
          item_call_id := Some ''t1'', item_name := Some ''search''\<rparr>)\<rparr>,
      noEvent\<lparr>ev_type := Some ''response.function_call_arguments.delta'',
        ev_call_id := Some ''t1'', ev_delta := Some ''{}''\<rparr>])
   = [ToolCallPartial (Some 0) (Some ''t1'') (Some ''search'') (Some ''{}'')]
   \<and> fst (responsesLoop newHandler
     [noEvent\<lparr>ev_type := Some ''response.output_item.added'',
        ev_item := Some (noItem\<lparr>item_type := Some ''function_call'',
          item_call_id := Some ''t1'', item_name := Some ''search''\<rparr>)\<rparr>,
      noEvent\<lparr>ev_type := Some ''response.function_call_arguments.delta'',
        ev_name := Some ''lookup'', ev_delta := Some ''{}''\<rparr>])
   = [ToolCallPartial (Some 0) (Some ''t1'') (Some ''lookup'') (Some ''{}'')]
   \<and> fst (responsesLoop newHandler [addedT1, deltaT2])
     = [ToolCallPartial (Some 0) (Some ''t2'') (Some ''lookup'') (Some ''{}'')]
   \<and> fst (responsesLoop newHandler [addedT1, addedT2, anonDelta])
     = [ToolCallPartial (Some 0) (Some ''t2'') (Some ''lookup'') (Some ''{}'')]"
    by (simp add: addedT1_def addedT2_def deltaT2_def anonDelta_def responses_eval)
  have delta: "fst (processResponsesEvent h e) =
        (case (firstTruthy [ev_call_id e, ev_tool_call_id e, ev_id e, pendingToolCallId h],
               firstTruthy [ev_name e, ev_function_name e, pendingToolCallName h]) of
           (Some i, Some n) \<Rightarrow>
             [ToolCallPartial (Some (case ev_index e of None \<Rightarrow> 0 | Some ix \<Rightarrow> ix)) (Some i) (Some n)
                (if truthy (ev_delta e) then ev_delta e else ev_arguments e)]
         | _ \<Rightarrow> [])"
    if "isToolArgsDelta (ev_type e)"
    using that by (rule delta_identity)
  have rec: "pendingToolCallId (snd (processResponsesEvent h e)) = itemCallId it
        \<and> pendingToolCallName (snd (processResponsesEvent h e)) = itemName it"
    if "isOutputItem (ev_type e)" "ev_item e = Some it" "isCallItem it" "truthy (itemCallId it)"
    using that by (simp add: outputItem_step recordIdentity_def)
  have keep: "pendingToolCallId (snd (processResponsesEvent h e)) = pendingToolCallId h
        \<and> pendingToolCallName (snd (processResponsesEvent h e)) = pendingToolCallName h"
    if n: "\<not> (isOutputItem (ev_type e)
          \<and> (\<exists>x. ev_item e = Some x \<and> isCallItem x \<and> truthy (itemCallId x)))"
  proof (cases "isOutputItem (ev_type e)")
    case False
    then show ?thesis by (rule other_step_pending)
  next
    case True
    with n have "\<forall>x. ev_item e = Some x \<longrightarrow> \<not> (isCallItem x \<and> truthy (itemCallId x))"
      by blast
    then show ?thesis
      using captureResponse_pending[of h e]
      by (auto simp: outputItem_step[OF True] recordIdentity_def split: option.splits)
  qed
  have cid: "itemCallId it = firstTruthy [item_call_id it, item_tool_call_id it, item_id it]"
    if "truthy (itemCallId it)"
    using that by (auto simp: itemCallId_def jsOr_def)
  have nm: "itemName it = firstTruthy [item_name it,
          (case item_function it of None \<Rightarrow> None | Some f \<Rightarrow> fn_name f), item_function_name it]"
    if "truthy (itemName it)"
    using that by (auto simp: itemName_def itemFnName_def jsOr_def)
  from delta rec keep cid nm have general: "(isToolArgsDelta (ev_type e) \<longrightarrow>
      fst (processResponsesEvent h e) =
        (case (firstTruthy [ev_call_id e, ev_tool_call_id e, ev_id e, pendingToolCallId h],
               firstTruthy [ev_name e, ev_function_name e, pendingToolCallName h]) of
           (Some i, Some n) \<Rightarrow>
             [ToolCallPartial (Some (case ev_index e of None \<Rightarrow> 0 | Some ix \<Rightarrow> ix)) (Some i) (Some n)
                (if truthy (ev_delta e) then ev_delta e else ev_arguments e)]
         | _ \<Rightarrow> []))
   \<and> (isOutputItem (ev_type e) \<and> ev_item e = Some it \<and> isCallItem it \<and> truthy (itemCallId it) \<longrightarrow>
        pendingToolCallId (snd (processResponsesEvent h e)) = itemCallId it
        \<and> pendingToolCallName (snd (processResponsesEvent h e)) = itemName it)
   \<and> (\<not> (isOutputItem (ev_type e)
          \<and> (\<exists>x. ev_item e = Some x \<and> isCallItem x \<and> truthy (itemCallId x))) \<longrightarrow>
        pendingToolCallId (snd (processResponsesEvent h e)) = pendingToolCallId h
        \<and> pendingToolCallName (snd (processResponsesEvent h e)) = pendingToolCallName h)
   \<and> (truthy (itemCallId it) \<longrightarrow>
        itemCallId it = firstTruthy [item_call_id it, item_tool_call_id it, item_id it])
   \<and> (truthy (itemName it) \<longrightarrow>
        itemName it = firstTruthy [item_name it,
          (case item_function it of None \<Rightarrow> None | Some f \<Rightarrow> fn_name f), item_function_name it])"
    by blast
  from scenario general show ?thesis by (rule conjI)
qed

theorem C4_fallback_scenario_witness:
  "fst (processResponsesEvent
      (newHandler\<lparr>pendingToolCallId := Some ''t1'', pendingToolCallName := Some ''search''\<rparr>)
      deltaT2)
     = [ToolCallPartial (Some 0) (Some ''t2'') (Some ''lookup'') (Some ''{}'')]
   \<and> fst (processResponsesEvent
      (newHandler\<lparr>pendingToolCallId := Some ''t1'', pendingToolCallName := Some ''search''\<rparr>)
      anonDelta)
     = [ToolCallPartial (Some 0) (Some ''t1'') (Some ''search'') (Some ''{}'')]
   \<and> pendingToolCallId (snd (processResponsesEvent
      (newHandler\<lparr>pendingToolCallId := Some ''t1'', pendingToolCallName := Some ''search''\<rparr>)
      addedT2)) = Some ''t2''
   \<and> pendingToolCallId (snd (processResponsesEvent
      (newHandler\<lparr>pendingToolCallId := Some ''t1'', pendingToolCallName := Some ''search''\<rparr>)
      deltaT2)) = Some ''t1''"
proof -
  let ?h = "newHandler\<lparr>pendingToolCallId := Some ''t1'', pendingToolCallName := Some ''search''\<rparr>"
  let ?it = "noItem\<lparr>item_type := Some ''function_call'',
          item_call_id := Some ''t2'', item_name := Some ''lookup''\<rparr>"
  have d2: "isToolArgsDelta (ev_type deltaT2)"
    and da: "isToolArgsDelta (ev_type anonDelta)"
    by (simp_all add: deltaT2_def anonDelta_def isToolArgsDelta_def)
  have f2: "firstTruthy [ev_call_id deltaT2, ev_tool_call_id deltaT2, ev_id deltaT2,
        pendingToolCallId ?h] = Some ''t2''
      \<and> firstTruthy [ev_name deltaT2, ev_function_name deltaT2, pendingToolCallName ?h]
        = Some ''lookup''
      \<and> ev_index deltaT2 = None \<and> ev_delta deltaT2 = Some ''{}''"
    by (simp add: deltaT2_def noEvent_def)
  have fa: "firstTruthy [ev_call_id anonDelta, ev_tool_call_id anonDelta, ev_id anonDelta,
        pendingToolCallId ?h] = Some ''t1''
      \<and> firstTruthy [ev_name anonDelta, ev_function_name anonDelta, pendingToolCallName ?h]
        = Some ''search''
      \<and> ev_index anonDelta = None \<and> ev_delta anonDelta = Some ''{}''"
    by (simp add: anonDelta_def noEvent_def)
  have o2: "isOutputItem (ev_type addedT2) \<and> ev_item addedT2 = Some ?it \<and> isCallItem ?it
      \<and> truthy (itemCallId ?it) \<and> itemCallId ?it = Some ''t2''"
    by (simp add: addedT2_def isOutputItem_def isCallItem_def itemCallId_def jsOr_def noItem_def)
  have n2: "\<not> (isOutputItem (ev_type deltaT2)
          \<and> (\<exists>x. ev_item deltaT2 = Some x \<and> isCallItem x \<and> truthy (itemCallId x)))"
    by (simp add: deltaT2_def isOutputItem_def)
  have p: "pendingToolCallId ?h = Some ''t1''" by simp
  have a: "fst (processResponsesEvent ?h deltaT2)
     = [ToolCallPartial (Some 0) (Some ''t2'') (Some ''lookup'') (Some ''{}'')]"
    using C4_fallback_scenario[of deltaT2 ?h ?it] d2 f2 by simp
  have b: "fst (processResponsesEvent ?h anonDelta)
     = [ToolCallPartial (Some 0) (Some ''t1'') (Some ''search'') (Some ''{}'')]"
    using C4_fallback_scenario[of anonDelta ?h ?it] da fa by simp
  have c: "pendingToolCallId (snd (processResponsesEvent ?h addedT2)) = Some ''t2''"
    using C4_fallback_scenario[of addedT2 ?h ?it] o2 by simp
  have d: "pendingToolCallId (snd (processResponsesEvent ?h deltaT2)) = Some ''t1''"
    using C4_fallback_scenario[of deltaT2 ?h ?it] n2 p by simp
  from a b c d show ?thesis by blast
qed

subsection \<open>C2: an arguments delta whose identity cannot be resolved\<close>

text \<open>
  The claim as stated fails on the chat-completions path, which has no aggregator: a
  \<open>tool_calls\<close> fragment without id and without name is still yielded, as a
  \<open>ToolCallPartial\<close> with both absent.
\<close>

theorem C2_counterexample:
  "emitted (createMessage (baseEnv\<lparr>chatCreate := \<lambda>r. Inr (RawStream [anonFragment] None)\<rparr>)
      newHandler ''sys'' [] None)
   = [ToolCallPartial (Some 0) None None (Some ''{}'')]"
  by (simp add: create_eval anonFragment_def chat_eval)

text \<open>
  C2 (amended). In \<open>processResponsesEvent\<close>, an arguments delta whose call id, or whose
  name, is present neither on the event nor in the pending identity yields no chunk, and
  no arguments delta changes the pending identity. On the chat-completions path every
  fragment of \<open>delta.tool_calls\<close> is forwarded with exactly the fields it carries, and
  fragments without id leave the set of active ids unchanged.
\<close>

theorem C2_unresolved_delta:
  "(isToolArgsDelta (ev_type e) \<and>
      ((\<not> truthy (ev_call_id e) \<and> \<not> truthy (ev_tool_call_id e) \<and> \<not> truthy (ev_id e)
          \<and> \<not> truthy (pendingToolCallId h))
       \<or> (\<not> truthy (ev_name e) \<and> \<not> truthy (ev_function_name e)
          \<and> \<not> truthy (pendingToolCallName h)))
    \<longrightarrow> fst (processResponsesEvent h e) = [])
   \<and> (isToolArgsDelta (ev_type e)
    \<longrightarrow> pendingToolCallId (snd (processResponsesEvent h e)) = pendingToolCallId h
      \<and> pendingToolCallName (snd (processResponsesEvent h e)) = pendingToolCallName h)
   \<and> (choiceDelta ck = Some d \<and> d_tool_calls d = Some tcs
    \<longrightarrow> fst (toolOut active ck) =
          map (\<lambda>tc. ToolCallPartial (tc_index tc) (tc_id tc) (tcName tc) (tcArguments tc)) tcs
      \<and> ((\<forall>tc \<in> set tcs. \<not> truthy (tc_id tc)) \<longrightarrow> snd (toolOut active ck) = active))"
proof -
  have cap: "pendingToolCallId (captureResponse h e) = pendingToolCallId h
       \<and> pendingToolCallName (captureResponse h e) = pendingToolCallName h"
    by (simp add: captureResponse_def Let_def split: option.splits)
  have types: "isToolArgsDelta t \<Longrightarrow> \<not> isTextDelta t \<and> \<not> isReasoningDelta t \<and> \<not> isRefusalDelta t" for t
    by (auto simp: isToolArgsDelta_def isTextDelta_def isReasoningDelta_def isRefusalDelta_def)
  have step: "isToolArgsDelta (ev_type e) \<Longrightarrow>
      processResponsesEvent h e = (toolArgsDelta (captureResponse h e) e, captureResponse h e)"
    using types[of "ev_type e"] by (simp add: processResponsesEvent_def Let_def)
  have a: "fst (processResponsesEvent h e) = []"
    if "isToolArgsDelta (ev_type e)"
      and "(\<not> truthy (ev_call_id e) \<and> \<not> truthy (ev_tool_call_id e) \<and> \<not> truthy (ev_id e)
          \<and> \<not> truthy (pendingToolCallId h))
       \<or> (\<not> truthy (ev_name e) \<and> \<not> truthy (ev_function_name e)
          \<and> \<not> truthy (pendingToolCallName h))"
    using that cap
    by (auto simp: step toolArgsDelta_def resolveCallId_def resolveName_def jsOr_def Let_def)
  have b: "pendingToolCallId (snd (processResponsesEvent h e)) = pendingToolCallId h
      \<and> pendingToolCallName (snd (processResponsesEvent h e)) = pendingToolCallName h"
    if "isToolArgsDelta (ev_type e)"
    using that cap by (simp add: step)
  have c: "fst (toolOut active ck) =
          map (\<lambda>tc. ToolCallPartial (tc_index tc) (tc_id tc) (tcName tc) (tcArguments tc)) tcs
      \<and> ((\<forall>tc \<in> set tcs. \<not> truthy (tc_id tc)) \<longrightarrow> snd (toolOut active ck) = active)"
    if "choiceDelta ck = Some d" and "d_tool_calls d = Some tcs"
    using that by (simp add: toolOut_def toolCallsLoop_forwards toolCallsLoop_no_ids)
  from a b c show ?thesis by blast
qed

theorem C2_unresolved_delta_witness:
  "fst (processResponsesEvent newHandler
      (noEvent\<lparr>ev_type := Some ''response.function_call_arguments.delta'',
         ev_call_id := Some ''t1'', ev_delta := Some ''{}''\<rparr>)) = []
   \<and> pendingToolCallId (snd (processResponsesEvent newHandler
      (noEvent\<lparr>ev_type := Some ''response.function_call_arguments.delta'',
         ev_call_id := Some ''t1'', ev_delta := Some ''{}''\<rparr>))) = None
   \<and> fst (toolOut [''c1''] anonFragment) = [ToolCallPartial (Some 0) None None (Some ''{}'')]
   \<and> snd (toolOut [''c1''] anonFragment) = [''c1'']"
proof -
  let ?e = "noEvent\<lparr>ev_type := Some ''response.function_call_arguments.delta'',
         ev_call_id := Some ''t1'', ev_delta := Some ''{}''\<rparr>"
  let ?d = "noDelta\<lparr>d_tool_calls := Some [toolDelta 0 None None (Some ''{}'')]\<rparr>"
  have t: "isToolArgsDelta (ev_type ?e)" by (simp add: isToolArgsDelta_def)
  have n: "\<not> truthy (ev_name ?e) \<and> \<not> truthy (ev_function_name ?e)
          \<and> \<not> truthy (pendingToolCallName newHandler)"
    by (simp add: noEvent_def newHandler_def)
  have p: "pendingToolCallId newHandler = None" by (simp add: newHandler_def)
  have d: "choiceDelta anonFragment = Some ?d \<and> d_tool_calls ?d = Some [toolDelta 0 None None (Some ''{}'')]"
    by (simp add: anonFragment_def choiceDelta_def firstChoice_def deltaChunk_def)
  have i: "\<forall>tc \<in> set [toolDelta 0 None None (Some ''{}'')]. \<not> truthy (tc_id tc)"
    by (simp add: toolDelta_def)
  have m: "map (\<lambda>tc. ToolCallPartial (tc_index tc) (tc_id tc) (tcName tc) (tcArguments tc))
       [toolDelta 0 None None (Some ''{}'')] = [ToolCallPartial (Some 0) None None (Some ''{}'')]"
    by (simp add: toolDelta_def tcName_def tcArguments_def)
  show ?thesis
    using C2_unresolved_delta[of ?e newHandler anonFragment ?d "[toolDelta 0 None None (Some ''{}'')]" "[''c1'']"]
      t n p d i m
    by (metis (no_types, lifting))
qed

subsection \<open>C10: text and reasoning chunks are never empty\<close>

lemma messageTexts_nonempty: "Text [] \<notin> set (messageTexts cs) \<and> Reasoning [] \<notin> set (messageTexts cs)"
  by (induction cs) (auto dest: truthy_the)

lemma itemChunks_nonempty: "Text [] \<notin> set (itemChunks t it) \<and> Reasoning [] \<notin> set (itemChunks t it)"
  using messageTexts_nonempty by (auto simp: itemChunks_def dest: truthy_the)

lemma processResponsesEvent_nonempty:
  "Text [] \<notin> set (fst (processResponsesEvent h e)) \<and> Reasoning [] \<notin> set (fst (processResponsesEvent h e))"
  using itemChunks_nonempty
  by (auto simp: processResponsesEvent_def Let_def toolArgsDelta_def usageChunk_def
      dest: truthy_the split: option.splits)

lemma responsesLoop_nonempty:
  "Text [] \<notin> set (fst (responsesLoop h es)) \<and> Reasoning [] \<notin> set (fst (responsesLoop h es))"
proof (induction es arbitrary: h)
  case Nil
  then show ?case by simp
next
  case (Cons e es)
  obtain out h1 where p: "processResponsesEvent h e = (out, h1)" by (cases "processResponsesEvent h e")
  obtain rest h2 where r: "responsesLoop h1 es = (rest, h2)" by (cases "responsesLoop h1 es")
  from processResponsesEvent_nonempty[of h e] p Cons.IH[of h1] r show ?case by simp
qed

lemma toolCallsLoop_only_partials:
  "toolCallsLoop a tcs = (out, a') \<Longrightarrow> c \<in> set out \<Longrightarrow> \<exists>ix i n ar. c = ToolCallPartial ix i n ar"
  by (induction tcs arbitrary: a out a') (auto simp: Let_def split: prod.splits)

lemma chatChunk_texts:
  "Text s \<in> set (fst (chatChunk a ck)) \<Longrightarrow> s \<noteq> [] \<and> (\<exists>d. choiceDelta ck = Some d \<and> d_content d = Some s)"
  by (auto simp: chatChunk_def textOut_def toolOut_def reasoningOut_def endOut_def usageOut_def
      dest: toolCallsLoop_only_partials truthy_the truthy_Some
      split: prod.splits option.splits if_splits)

lemma chatChunk_reasonings:
  "Reasoning s \<in> set (fst (chatChunk a ck)) \<Longrightarrow> s \<noteq> [] \<and> reasoningText (choiceDelta ck) = Some s"
  by (auto simp: chatChunk_def textOut_def toolOut_def reasoningOut_def endOut_def usageOut_def
      dest: toolCallsLoop_only_partials truthy_the truthy_Some
      split: prod.splits option.splits if_splits)

lemma chatLoop_nonempty:
  "Text [] \<notin> set (fst (chatLoop v a cks)) \<and> Reasoning [] \<notin> set (fst (chatLoop v a cks))"
proof (induction cks arbitrary: a)
  case Nil
  then show ?case by simp
next
  case (Cons ck cks)
  show ?case
  proof (cases "v (firstChoice ck)")
    case (Some err)
    then show ?thesis by simp
  next
    case None
    obtain out a1 where p: "chatChunk a ck = (out, a1)" by (cases "chatChunk a ck")
    obtain rest a2 err where r: "chatLoop v a1 cks = (rest, a2, err)" by (cases "chatLoop v a1 cks")
    have "Text [] \<notin> set out \<and> Reasoning [] \<notin> set out"
      using chatChunk_texts[of "[]" a ck] chatChunk_reasonings[of "[]" a ck] p by auto
    with Cons.IH[of a1] r p None show ?thesis by simp
  qed
qed

lemma chatStream_nonempty:
  "Text [] \<notin> set (fst (chatStream v s)) \<and> Reasoning [] \<notin> set (fst (chatStream v s))"
  using chatLoop_nonempty[of v "[]" "units s"]
  by (auto simp: chatStream_def split: prod.splits option.splits)

lemma emitted_cases:
  "emitted (createMessage env h sys msgs md) = []
   \<or> (\<exists>s. emitted (createMessage env h sys msgs md) = fst (responsesLoop (resetCall h) (units s)))
   \<or> (\<exists>s. emitted (createMessage env h sys msgs md) = fst (chatStream (verifyFinishReason env) s))"
proof (cases "getClientWithBase env")
  case (Inl err)
  then show ?thesis by (simp add: createMessage_no_client)
next
  case (Inr key)
  show ?thesis
  proof (cases "prefersResponses (getModelInfo env)")
    case True
    show ?thesis
    proof (cases "responsesCreate env (buildResponsesRequestBody key
           (formatFullConversation (sanitizeOpenAiCallId env) (jsonStringify env) sys msgs)
           sys md)")
      case (Inl err)
      with Inr True show ?thesis using createMessage_responses_refused by blast
    next
      case r: (Inr s)
      with Inr True show ?thesis using createMessage_responses(1) by blast
    qed
  next
    case False
    show ?thesis
    proof (cases "chatCreate env (buildChatRequest key (getModelInfo env) sys md)")
      case (Inl err)
      with Inr False show ?thesis using createMessage_chat_refused by blast
    next
      case r: (Inr s)
      with Inr False show ?thesis using createMessage_chat(1) by blast
    qed
  qed
qed

text \<open>
  C10. No \<open>Text\<close> or \<open>Reasoning\<close> chunk yielded by \<open>createMessage\<close> has empty content, on
  either path. A Responses text or reasoning delta event whose delta is absent or empty
  yields nothing; a chat chunk whose content is absent or empty yields no \<open>Text\<close>, and one
  whose reasoning text is absent or empty yields no \<open>Reasoning\<close>.
\<close>

theorem C10_nonempty_content:
  "Text [] \<notin> set (emitted (createMessage env h sys msgs md))
   \<and> Reasoning [] \<notin> set (emitted (createMessage env h sys msgs md))
   \<and> ((isTextDelta (ev_type e) \<or> isReasoningDelta (ev_type e)) \<and> \<not> truthy (ev_delta e)
        \<longrightarrow> fst (processResponsesEvent h e) = [])
   \<and> ((case choiceDelta ck of None \<Rightarrow> True | Some d \<Rightarrow> \<not> truthy (d_content d))
        \<longrightarrow> (\<forall>s. Text s \<notin> set (fst (chatChunk active ck))))
   \<and> (\<not> truthy (reasoningText (choiceDelta ck))
        \<longrightarrow> (\<forall>s. Reasoning s \<notin> set (fst (chatChunk active ck))))"
proof -
  have a: "Text [] \<notin> set (emitted (createMessage env h sys msgs md))
     \<and> Reasoning [] \<notin> set (emitted (createMessage env h sys msgs md))"
    using emitted_cases[of env h sys msgs md] responsesLoop_nonempty chatStream_nonempty
    by (metis empty_iff list.set(1))
  have b: "(isTextDelta (ev_type e) \<or> isReasoningDelta (ev_type e)) \<and> \<not> truthy (ev_delta e)
        \<longrightarrow> fst (processResponsesEvent h e) = []"
    by (simp add: processResponsesEvent_def Let_def)
  have c: "(case choiceDelta ck of None \<Rightarrow> True | Some d \<Rightarrow> \<not> truthy (d_content d))
        \<longrightarrow> (\<forall>s. Text s \<notin> set (fst (chatChunk active ck)))"
    using chatChunk_texts[of _ active ck] by (auto split: option.splits)
  have d: "\<not> truthy (reasoningText (choiceDelta ck))
        \<longrightarrow> (\<forall>s. Reasoning s \<notin> set (fst (chatChunk active ck)))"
    using chatChunk_reasonings[of _ active ck] by auto
  from a b c d show ?thesis by blast
qed

theorem C10_nonempty_content_witness:
  "emitted (createMessage (baseEnv\<lparr>chatCreate := \<lambda>r. Inr hiStream\<rparr>) newHandler ''sys'' [] None)
     = [Text ''Hi'']
   \<and> Text [] \<notin> set (emitted (createMessage (baseEnv\<lparr>chatCreate := \<lambda>r. Inr hiStream\<rparr>)
        newHandler ''sys'' [] None))
   \<and> fst (processResponsesEvent newHandler
        (noEvent\<lparr>ev_type := Some ''response.output_text.delta'', ev_delta := Some []\<rparr>)) = []
   \<and> (\<forall>s. Text s \<notin> set (fst (chatChunk []
        (deltaChunk (noDelta\<lparr>d_content := Some [], d_reasoning := Some []\<rparr>) None None))))
   \<and> (\<forall>s. Reasoning s \<notin> set (fst (chatChunk []
        (deltaChunk (noDelta\<lparr>d_content := Some [], d_reasoning := Some []\<rparr>) None None))))"
proof -
  have a: "emitted (createMessage (baseEnv\<lparr>chatCreate := \<lambda>r. Inr hiStream\<rparr>) newHandler ''sys'' [] None)
     = [Text ''Hi'']"
    by (simp add: create_eval hiStream_def chat_eval)
  have b: "(isTextDelta (ev_type (noEvent\<lparr>ev_type := Some ''response.output_text.delta'', ev_delta := Some []\<rparr>))
       \<or> isReasoningDelta (ev_type (noEvent\<lparr>ev_type := Some ''response.output_text.delta'', ev_delta := Some []\<rparr>)))
      \<and> \<not> truthy (ev_delta (noEvent\<lparr>ev_type := Some ''response.output_text.delta'', ev_delta := Some []\<rparr>))"
    by (simp add: isTextDelta_def)
  have c: "(case choiceDelta (deltaChunk (noDelta\<lparr>d_content := Some [], d_reasoning := Some []\<rparr>) None None) of
        None \<Rightarrow> True | Some d \<Rightarrow> \<not> truthy (d_content d))"
    by (simp add: choiceDelta_def firstChoice_def deltaChunk_def)
  have d: "\<not> truthy (reasoningText (choiceDelta
        (deltaChunk (noDelta\<lparr>d_content := Some [], d_reasoning := Some []\<rparr>) None None)))"
    by (simp add: choiceDelta_def firstChoice_def deltaChunk_def reasoningText_def noDelta_def)
  show ?thesis
    using a b c d
      C10_nonempty_content[of "baseEnv\<lparr>chatCreate := \<lambda>r. Inr hiStream\<rparr>" newHandler "''sys''" "[]" None
        "noEvent\<lparr>ev_type := Some ''response.output_text.delta'', ev_delta := Some []\<rparr>"
        "deltaChunk (noDelta\<lparr>d_content := Some [], d_reasoning := Some []\<rparr>) None None" "[]"]
    by blast
qed

subsection \<open>C7: tool choice of the chat request\<close>

lemma finalToolChoice_auto:
  "useNativeTools info md \<Longrightarrow>
   requestedToolChoice md = None \<or> requestedToolChoice md = Some (ChoiceString ''auto'') \<Longrightarrow>
   finalToolChoice info md = Some (ChoiceString ''required'')"
  by (auto simp: finalToolChoice_def choiceTruthy_def)

lemma finalToolChoice_explicit:
  "requestedToolChoice md = Some c \<Longrightarrow>
   c = ChoiceString ''none'' \<or> c = ChoiceString ''required'' \<or> (\<exists>n. c = ChoiceNamed n) \<Longrightarrow>
   finalToolChoice info md = Some c"
  by (auto simp: finalToolChoice_def choiceTruthy_def)

lemma request_tool_choice:
  "choiceTruthy (finalToolChoice info md) \<Longrightarrow>
   cr_tool_choice (buildChatRequest key info sys md) = finalToolChoice info md"
  by (simp add: buildChatRequest_def)

text \<open>
  C7. On the chat-completions path the request sent is the one \<open>buildChatRequest\<close> builds.
  With native tools active, an unset or \<open>auto\<close> tool choice is sent as \<open>required\<close>; an
  explicitly supplied \<open>none\<close>, \<open>required\<close> or named function is sent unchanged (whether or
  not native tools are active).
\<close>

theorem C7_tool_choice:
  assumes "getClientWithBase env = Inr key" and "\<not> prefersResponses (getModelInfo env)"
  shows "\<exists>r. requests (createMessage env h sys msgs md) = [ChatStreamRequest r]
     \<and> (useNativeTools (getModelInfo env) md \<and>
          (requestedToolChoice md = None \<or> requestedToolChoice md = Some (ChoiceString ''auto''))
        \<longrightarrow> cr_tool_choice r = Some (ChoiceString ''required''))
     \<and> (\<forall>c. requestedToolChoice md = Some c \<and>
          (c = ChoiceString ''none'' \<or> c = ChoiceString ''required'' \<or> (\<exists>n. c = ChoiceNamed n))
        \<longrightarrow> cr_tool_choice r = Some c)"
proof -
  let ?r = "buildChatRequest key (getModelInfo env) sys md"
  have sent: "requests (createMessage env h sys msgs md) = [ChatStreamRequest ?r]"
    using assms by (simp add: createMessage_def Let_def split: sum.splits prod.splits)
  have auto_case: "cr_tool_choice ?r = Some (ChoiceString ''required'')"
    if "useNativeTools (getModelInfo env) md"
      and "requestedToolChoice md = None \<or> requestedToolChoice md = Some (ChoiceString ''auto'')"
  proof -
    have f: "finalToolChoice (getModelInfo env) md = Some (ChoiceString ''required'')"
      using that by (rule finalToolChoice_auto)
    then have "choiceTruthy (finalToolChoice (getModelInfo env) md)"
      by (simp add: choiceTruthy_def)
    with f show ?thesis by (simp add: request_tool_choice)
  qed
  have explicit: "cr_tool_choice ?r = Some c"
    if "requestedToolChoice md = Some c"
      and "c = ChoiceString ''none'' \<or> c = ChoiceString ''required'' \<or> (\<exists>n. c = ChoiceNamed n)"
    for c
  proof -
    have f: "finalToolChoice (getModelInfo env) md = Some c"
      using that by (rule finalToolChoice_explicit)
    have "choiceTruthy (Some c)"
      using that(2) by (auto simp: choiceTruthy_def)
    with f show ?thesis by (simp add: request_tool_choice)
  qed
  from sent auto_case explicit show ?thesis by blast
qed

theorem C7_tool_choice_witness:
  "(\<exists>r. requests (createMessage baseEnv newHandler ''sys'' [] (Some (toolsMd (Some (ChoiceString ''auto'')))))
        = [ChatStreamRequest r] \<and> cr_tool_choice r = Some (ChoiceString ''required''))
   \<and> (\<exists>r. requests (createMessage baseEnv newHandler ''sys'' [] (Some (toolsMd (Some (ChoiceNamed ''lookup'')))))
        = [ChatStreamRequest r] \<and> cr_tool_choice r = Some (ChoiceNamed ''lookup''))"
proof -
  have k: "getClientWithBase baseEnv = Inr ''tok''"
    by (simp add: getClientWithBase_def baseEnv_def)
  have p: "\<not> prefersResponses (getModelInfo baseEnv)"
    by (simp add: prefersResponses_def baseEnv_def)
  have n: "useNativeTools (getModelInfo baseEnv) (Some (toolsMd (Some (ChoiceString ''auto''))))"
    by (simp add: useNativeTools_def baseEnv_def toolsMd_def)
  have r1: "requestedToolChoice (Some (toolsMd (Some (ChoiceString ''auto'')))) = Some (ChoiceString ''auto'')"
    by (simp add: requestedToolChoice_def toolsMd_def)
  have r2: "requestedToolChoice (Some (toolsMd (Some (ChoiceNamed ''lookup'')))) = Some (ChoiceNamed ''lookup'')"
    by (simp add: requestedToolChoice_def toolsMd_def)
  show ?thesis
    using C7_tool_choice[OF k p, of newHandler "''sys''" "[]" "Some (toolsMd (Some (ChoiceString ''auto'')))"]
      C7_tool_choice[OF k p, of newHandler "''sys''" "[]" "Some (toolsMd (Some (ChoiceNamed ''lookup'')))"]
      n r1 r2
    by blast
qed

subsection \<open>C9: no credential\<close>

text \<open>
  C9. When the token manager returns no token, or a token whose access token is absent or
  empty, \<open>createMessage\<close> and \<open>completePrompt\<close> fail with the sign-in error, yield nothing
  and send no request; the error carries the sign-in message; and every request either
  function ever sends is made with a non-empty bearer token.
\<close>

theorem C9_not_signed_in:
  "(getValid env = Inr None \<or>
      (\<exists>tok. getValid env = Inr (Some tok) \<and> \<not> truthy (access_token tok))
    \<longrightarrow> thrown (createMessage env h sys msgs md) = Some signInError
      \<and> emitted (createMessage env h sys msgs md) = []
      \<and> requests (createMessage env h sys msgs md) = []
      \<and> returned (completePrompt env p) = Inl signInError
      \<and> sent (completePrompt env p) = [])
   \<and> message signInError =
       ''Please sign in with Oracle SSO at Settings > Providers > Oracle Code Assist.''
   \<and> (\<forall>r \<in> set (requests (createMessage env h sys msgs md)) \<union> set (sent (completePrompt env p)).
        apiKeyOf r \<noteq> [])"
proof -
  have a: "getClientWithBase env = Inl signInError \<Longrightarrow>
      thrown (createMessage env h sys msgs md) = Some signInError
      \<and> emitted (createMessage env h sys msgs md) = []
      \<and> requests (createMessage env h sys msgs md) = []
      \<and> returned (completePrompt env p) = Inl signInError
      \<and> sent (completePrompt env p) = []"
    by (simp add: createMessage_def completePrompt_def)
  show ?thesis
    using a getClient_no_credential[of env] createMessage_requests_key completePrompt_requests_key
    by (auto simp: signInError_def)
qed

theorem C9_not_signed_in_witness:
  "thrown (createMessage (baseEnv\<lparr>getValid := Inr (Some \<lparr>access_token = Some []\<rparr>)\<rparr>)
       newHandler ''sys'' [] None) = Some signInError
   \<and> requests (createMessage (baseEnv\<lparr>getValid := Inr (Some \<lparr>access_token = Some []\<rparr>)\<rparr>)
       newHandler ''sys'' [] None) = []
   \<and> returned (completePrompt (baseEnv\<lparr>getValid := Inr (Some \<lparr>access_token = Some []\<rparr>)\<rparr>)
       ''hi'') = Inl signInError
   \<and> sent (completePrompt (baseEnv\<lparr>getValid := Inr (Some \<lparr>access_token = Some []\<rparr>)\<rparr>) ''hi'') = []
   \<and> map apiKeyOf (requests (createMessage baseEnv newHandler ''sys'' [] None)) = [''tok'']"
proof -
  have "getValid (baseEnv\<lparr>getValid := Inr (Some \<lparr>access_token = Some []\<rparr>)\<rparr>)
          = Inr (Some \<lparr>access_token = Some []\<rparr>) \<and> \<not> truthy (access_token \<lparr>access_token = Some []\<rparr>)"
    by simp
  then have h: "getValid (baseEnv\<lparr>getValid := Inr (Some \<lparr>access_token = Some []\<rparr>)\<rparr>) = Inr None \<or>
      (\<exists>tok. getValid (baseEnv\<lparr>getValid := Inr (Some \<lparr>access_token = Some []\<rparr>)\<rparr>) = Inr (Some tok)
         \<and> \<not> truthy (access_token tok))"
    by blast
  have k: "map apiKeyOf (requests (createMessage baseEnv newHandler ''sys'' [] None)) = [''tok'']"
    by (simp add: createMessage_def baseEnv_def getClientWithBase_def prefersResponses_def
        buildChatRequest_def chatStream_def Let_def)
  show ?thesis
    using C9_not_signed_in[of "baseEnv\<lparr>getValid := Inr (Some \<lparr>access_token = Some []\<rparr>)\<rparr>"
        newHandler "''sys''" "[]" None "''hi''"] h k
    by blast
qed

subsection \<open>C5: order of the formatted input items\<close>

lemma map_filter_Cons_Some: "f x = Some y \<Longrightarrow> List.map_filter f (x # xs) = y # List.map_filter f xs"
  by (simp add: List.map_filter_def)

lemma map_filter_Cons_None: "f x = None \<Longrightarrow> List.map_filter f (x # xs) = List.map_filter f xs"
  by (simp add: List.map_filter_def)

lemma map_filter_Nil: "List.map_filter f [] = []"
  by (simp add: List.map_filter_def)

lemma userBlocks_grouped:
  "userBlocks san content toolResults bs =
     (content @ List.map_filter userContentOf bs,
      toolResults @ List.map_filter (userToolItemOf san) bs)"
  by (induction san content toolResults bs rule: userBlocks.induct)
     (simp_all add: map_filter_Cons_Some map_filter_Cons_None map_filter_Nil)

lemma assistantBlocks_grouped:
  "assistantBlocks san str content toolCalls bs =
     (content @ List.map_filter assistantContentOf bs,
      toolCalls @ List.map_filter (assistantToolItemOf san str) bs)"
  by (induction san str content toolCalls bs rule: assistantBlocks.induct)
     (simp_all add: map_filter_Cons_Some map_filter_Cons_None map_filter_Nil)

lemma formatMessage_grouped: "formatMessage san str m = groupedItems san str m"
  by (simp add: formatMessage_def groupedItems_def roleItem_def userBlocks_grouped
      assistantBlocks_grouped split: msg_content.splits)

lemma formatLoop_concat:
  "formatLoop san str input ms = input @ concat (map (formatMessage san str) ms)"
  by (induction ms arbitrary: input) simp_all

text \<open>
  The claim as stated fails inside one message: the tool result is the first block of the
  source message and the text the second, but the text's item comes first.
\<close>

theorem C5_counterexample:
  "formatFullConversation (\<lambda>i. i) (\<lambda>j. ''{}'') ''sys'' [resultThenText]
     = [RoleItem ''user'' [InputText ''next''], FunctionCallOutput ''c1'' ''ok'']
   \<and> formatFullConversation (\<lambda>i. i) (\<lambda>j. ''{}'') ''sys'' [resultThenText]
     \<noteq> [FunctionCallOutput ''c1'' ''ok'', RoleItem ''user'' [InputText ''next'']]"
  by (simp add: formatFullConversation_def formatMessage_def resultThenText_def toolResultText_def)

text \<open>
  C5 (amended). The input items are those of the messages, in message order, each message
  contributing a contiguous run. Within one message the role-bearing item, holding its
  text and image blocks in block order, comes first and is separate from the tool-call or
  tool-result items, which follow in block order.
\<close>

theorem C5_grouped_order:
  "formatFullConversation san str systemPrompt messages
     = concat (map (groupedItems san str) messages)"
proof -
  have "formatMessage san str = groupedItems san str"
    by (rule ext) (rule formatMessage_grouped)
  then show ?thesis
    by (simp add: formatFullConversation_def formatLoop_concat)
qed

theorem C5_grouped_order_witness:
  "formatFullConversation (\<lambda>i. i) (\<lambda>j. ''{}'') ''sys''
     [resultThenText,
      \<lparr>m_type = None, m_role = Some ''assistant'',
       m_content = ContentBlocks [ToolUseBlock ''c2'' ''lookup'' JNull, TextBlock ''done'']\<rparr>]
   = [RoleItem ''user'' [InputText ''next''], FunctionCallOutput ''c1'' ''ok'',
      RoleItem ''assistant'' [OutputText ''done''], FunctionCall ''c2'' ''lookup'' ''{}'']"
  using C5_grouped_order[of "\<lambda>i. i" "\<lambda>j. ''{}''" "''sys''"
      "[resultThenText,
      \<lparr>m_type = None, m_role = Some ''assistant'',
       m_content = ContentBlocks [ToolUseBlock ''c2'' ''lookup'' JNull, TextBlock ''done'']\<rparr>]"]
  by (simp add: groupedItems_def resultThenText_def roleItem_def toolResultText_def
      List.map_filter_def)

subsection \<open>C6: completePrompt\<close>

lemma firstOutputText_first:
  "firstOutputText cs = (case List.map_filter partOutputText cs of [] \<Rightarrow> None | t # ts \<Rightarrow> Some t)"
  by (induction cs) (auto simp: List.map_filter_def partOutputText_def)

lemma scanOutput_first:
  "scanOutput out = (case concat (map itemOutputTexts out) of [] \<Rightarrow> None | t # ts \<Rightarrow> Some t)"
proof (induction out)
  case Nil
  then show ?case by simp
next
  case (Cons it its)
  show ?case
  proof (cases "item_type it = Some ''message'' \<and> item_content it \<noteq> None")
    case True
    then obtain cs where cs: "item_content it = Some cs" by auto
    with True have t: "itemOutputTexts it = List.map_filter partOutputText cs"
      by (simp add: itemOutputTexts_def)
    show ?thesis
      using True cs t Cons.IH
      by (cases "List.map_filter partOutputText cs") (simp_all add: firstOutputText_first)
  next
    case False
    then have "itemOutputTexts it = []"
      by (auto simp: itemOutputTexts_def)
    with False Cons.IH show ?thesis by auto
  qed
qed

lemma responseText_first:
  "responseText (Some r) =
     (case allOutputTexts r of
        t # ts \<Rightarrow> StringValue t
      | [] \<Rightarrow>
          (case r_text r of
             None \<Rightarrow> StringValue []
           | Some (TextString s) \<Rightarrow> StringValue s
           | Some TextConfig \<Rightarrow> ConfigValue))"
proof (cases "r_output r")
  case None
  then show ?thesis
    by (simp add: responseText_def allOutputTexts_def split: option.splits text_member.splits)
next
  case (Some out)
  define ts where "ts = concat (map itemOutputTexts out)"
  have a: "allOutputTexts r = ts"
    using Some by (simp add: allOutputTexts_def ts_def)
  have b: "scanOutput out = (case ts of [] \<Rightarrow> None | t # ts' \<Rightarrow> Some t)"
    by (simp only: scanOutput_first ts_def)
  have c: "responseText (Some r) =
      (case scanOutput out of Some t \<Rightarrow> StringValue t
       | None \<Rightarrow>
          (case r_text r of
             None \<Rightarrow> StringValue []
           | Some (TextString s) \<Rightarrow> StringValue s
           | Some TextConfig \<Rightarrow> ConfigValue))"
    using Some by (simp add: responseText_def split: option.splits text_member.splits)
  show ?thesis
    unfolding a c b by (cases ts) simp_all
qed

text \<open>
  The claim as stated fails: a Responses result with the two texts \<open>Hello, \<close> and
  \<open>world\<close> returns the first alone; and for a model without declared API type
  \<open>createMessage\<close> selects the chat protocol while \<open>completePrompt\<close> selects the Responses
  protocol.
\<close>

theorem C6_counterexample:
  "returned (completePrompt (baseEnv\<lparr>responsesComplete := \<lambda>r. Inr (Some twoTexts)\<rparr>) ''hi'')
     = Inr (StringValue ''Hello, '')
   \<and> allOutputTexts twoTexts = [''Hello, '', ''world'']
   \<and> \<not> prefersResponses (getModelInfo baseEnv) \<and> \<not> promptUsesChat (getModelInfo baseEnv)"
  by (simp add: completePrompt_def getClientWithBase_def baseEnv_def promptUsesChat_def
      prefersResponses_def responseText_def twoTexts_def noItem_def allOutputTexts_def
      itemOutputTexts_def partOutputText_def List.map_filter_def)

text \<open>
  C6 (amended). \<open>completePrompt\<close> reads no tool calls. On the chat protocol it returns the
  string content of the first choice's message (the empty string when absent). On the
  Responses protocol, when the message items of the result hold a non-empty
  \<open>output_text\<close> part, it returns the first such part alone, not the concatenation of all
  of them; when they hold none and the result has no \<open>text\<close> member, it returns the empty
  string. What it returns for a result without \<open>output_text\<close> whose \<open>text\<close> member is
  present is left open here.
\<close>

theorem C6_first_text:
  assumes "getClientWithBase env = Inr key"
  shows "(promptUsesChat (getModelInfo env)
          \<and> chatComplete env \<lparr>pr_api_key = key, pr_prompt = prompt\<rparr> = Inr resp
        \<longrightarrow> returned (completePrompt env prompt) =
              Inr (StringValue
                (case cc_choices resp of
                   Some (c # cs) \<Rightarrow> (case cm_content c of Some t \<Rightarrow> t | None \<Rightarrow> [])
                 | _ \<Rightarrow> [])))
     \<and> (\<not> promptUsesChat (getModelInfo env)
          \<and> responsesComplete env \<lparr>pr_api_key = key, pr_prompt = prompt\<rparr> = Inr (Some r)
        \<longrightarrow> (\<forall>t ts. allOutputTexts r = t # ts
              \<longrightarrow> returned (completePrompt env prompt) = Inr (StringValue t))
          \<and> (allOutputTexts r = [] \<and> r_text r = None
              \<longrightarrow> returned (completePrompt env prompt) = Inr (StringValue [])))
     \<and> (\<forall>t \<in> set (allOutputTexts r). t \<noteq> [])"
proof -
  have chat: "returned (completePrompt env prompt) =
              Inr (StringValue
                (case cc_choices resp of
                   Some (c # cs) \<Rightarrow> (case cm_content c of Some t \<Rightarrow> t | None \<Rightarrow> [])
                 | _ \<Rightarrow> []))"
    if "promptUsesChat (getModelInfo env)"
      and "chatComplete env \<lparr>pr_api_key = key, pr_prompt = prompt\<rparr> = Inr resp"
    using assms that
    by (auto simp: completePrompt_def chatCompletionText_def split: option.splits list.splits)
  have resp: "returned (completePrompt env prompt) = Inr (responseText (Some r))"
    if "\<not> promptUsesChat (getModelInfo env)"
      and "responsesComplete env \<lparr>pr_api_key = key, pr_prompt = prompt\<rparr> = Inr (Some r)"
    using assms that by (simp add: completePrompt_def)
  have first: "responseText (Some r) = StringValue t" if "allOutputTexts r = t # ts" for t ts
    using that by (simp add: responseText_first)
  have none: "responseText (Some r) = StringValue []"
    if "allOutputTexts r = []" and "r_text r = None"
    using that by (simp add: responseText_first)
  have ne: "\<forall>t \<in> set (allOutputTexts r). t \<noteq> []"
    by (auto simp: allOutputTexts_def itemOutputTexts_def List.map_filter_def partOutputText_def
        split: option.splits if_splits)
  from chat resp first none ne show ?thesis by simp
qed

theorem C6_first_text_witness:
  "returned (completePrompt (baseEnv\<lparr>responsesComplete := \<lambda>r. Inr (Some twoTexts)\<rparr>) ''hi'')
     = Inr (StringValue ''Hello, '')
   \<and> returned (completePrompt (baseEnv\<lparr>responsesComplete := \<lambda>r. Inr (Some noTexts)\<rparr>) ''hi'')
     = Inr (StringValue [])
   \<and> returned (completePrompt
       (baseEnv\<lparr>getModelInfo := \<lparr>mi_apiType = Some ''CHAT_COMPLETIONS'',
           mi_supportedApiTypes = None, mi_supportsNativeTools = None\<rparr>,
         chatComplete := \<lambda>r. Inr \<lparr>cc_choices = Some [\<lparr>cm_content = Some ''yes''\<rparr>,
           \<lparr>cm_content = Some ''no''\<rparr>]\<rparr>\<rparr>) ''hi'')
     = Inr (StringValue ''yes'')"
proof -
  let ?e1 = "baseEnv\<lparr>responsesComplete := \<lambda>r. Inr (Some twoTexts)\<rparr>"
  let ?e3 = "baseEnv\<lparr>responsesComplete := \<lambda>r. Inr (Some noTexts)\<rparr>"
  let ?resp = "\<lparr>cc_choices = Some [\<lparr>cm_content = Some ''yes''\<rparr>, \<lparr>cm_content = Some ''no''\<rparr>]\<rparr>"
  let ?e2 = "baseEnv\<lparr>getModelInfo := \<lparr>mi_apiType = Some ''CHAT_COMPLETIONS'',
           mi_supportedApiTypes = None, mi_supportsNativeTools = None\<rparr>,
         chatComplete := \<lambda>r. Inr ?resp\<rparr>"
  have k1: "getClientWithBase ?e1 = Inr ''tok''"
    by (simp add: getClientWithBase_def baseEnv_def)
  have k2: "getClientWithBase ?e2 = Inr ''tok''"
    by (simp add: getClientWithBase_def baseEnv_def)
  have k3: "getClientWithBase ?e3 = Inr ''tok''"
    by (simp add: getClientWithBase_def baseEnv_def)
  have s1: "\<not> promptUsesChat (getModelInfo ?e1)
      \<and> responsesComplete ?e1 \<lparr>pr_api_key = ''tok'', pr_prompt = ''hi''\<rparr> = Inr (Some twoTexts)"
    by (simp add: promptUsesChat_def baseEnv_def)
  have s3: "\<not> promptUsesChat (getModelInfo ?e3)
      \<and> responsesComplete ?e3 \<lparr>pr_api_key = ''tok'', pr_prompt = ''hi''\<rparr> = Inr (Some noTexts)"
    by (simp add: promptUsesChat_def baseEnv_def)
  have s2: "promptUsesChat (getModelInfo ?e2)
      \<and> chatComplete ?e2 \<lparr>pr_api_key = ''tok'', pr_prompt = ''hi''\<rparr> = Inr ?resp"
    by (simp add: promptUsesChat_def)
  have t: "allOutputTexts twoTexts = [''Hello, '', ''world'']"
    by (simp add: twoTexts_def noItem_def allOutputTexts_def itemOutputTexts_def
        partOutputText_def List.map_filter_def)
  have n: "allOutputTexts noTexts = [] \<and> r_text noTexts = None"
    by (simp add: noTexts_def noItem_def allOutputTexts_def itemOutputTexts_def)
  have r1: "returned (completePrompt ?e1 ''hi'') = Inr (StringValue ''Hello, '')"
    using C6_first_text[OF k1, of "''hi''" ?resp twoTexts] s1 t by simp
  have r3: "returned (completePrompt ?e3 ''hi'') = Inr (StringValue [])"
    using C6_first_text[OF k3, of "''hi''" ?resp noTexts] s3 n by simp
  have r2: "returned (completePrompt ?e2 ''hi'') = Inr (StringValue ''yes'')"
    using C6_first_text[OF k2, of "''hi''" ?resp twoTexts] s2 by simp
  from r1 r2 r3 show ?thesis by blast
qed

subsection \<open>C3: Usage chunks\<close>

text \<open>
  The claim as stated fails: one \<open>Usage\<close> is yielded for every raw chunk that carries
  usage, and the finalization of the chat path yields its \<open>ToolCallEnd\<close> chunks after them.
\<close>

theorem C3_counterexample:
  "emitted (createMessage (baseEnv\<lparr>chatCreate := \<lambda>r. Inr usageTwice\<rparr>) newHandler ''sys'' [] None)
   = [ToolCallPartial (Some 0) (Some ''c1'') (Some ''lookup'') (Some ''{}''),
      Usage 10 5, Usage 10 6, ToolCallEnd ''c1'']"
  by (simp add: create_eval usageTwice_def chat_eval)

lemma toolOut_no_usage: "\<not> list_ex isUsage (fst (toolOut a ck))"
  by (auto simp: toolOut_def toolCallsLoop_forwards list_ex_iff split: option.splits)

lemma endOut_ends: "list_all isToolCallEnd (fst (endOut a ck))"
  by (simp add: endOut_def list_all_iff)

lemma endOut_no_usage: "\<not> list_ex isUsage (fst (endOut a ck))"
  by (auto simp: endOut_def list_ex_iff)

lemma usageOut_cases:
  "(ck_usage ck = None \<and> usageOut ck = []) \<or> (ck_usage ck \<noteq> None \<and> (\<exists>i out. usageOut ck = [Usage i out]))"
  by (auto simp: usageOut_def split: option.splits)

lemma chatChunk_body: "fst (chatChunk a ck) = chunkBody a ck @ usageOut ck"
  by (simp add: chatChunk_def chunkBody_def case_prod_unfold Let_def)

lemma chunkBody_no_usage: "\<not> list_ex isUsage (chunkBody a ck)"
  using toolOut_no_usage[of a ck] endOut_no_usage[of "snd (toolOut a ck)" ck]
  by (auto simp: chunkBody_def textOut_def reasoningOut_def list_ex_iff split: option.splits)

lemma chatLoop_usage_last:
  "\<forall>ck \<in> set (butlast cks). ck_usage ck = None \<Longrightarrow>
   \<exists>pre u. fst (chatLoop v a cks) = pre @ u \<and> \<not> list_ex isUsage pre
      \<and> (u = [] \<or> (\<exists>i out. u = [Usage i out]))"
proof (induction cks arbitrary: a)
  case Nil
  then show ?case by simp
next
  case (Cons ck cks)
  show ?case
  proof (cases "v (firstChoice ck)")
    case (Some err)
    then show ?thesis by simp
  next
    case None
    note step = chatLoop_Cons_ok[of v ck a cks, OF None]
    show ?thesis
    proof (cases "cks = []")
      case True
      then have "fst (chatLoop v a (ck # cks)) = chunkBody a ck @ usageOut ck"
        using step by (simp add: chatChunk_body)
      then show ?thesis
        using chunkBody_no_usage[of a ck] usageOut_cases[of ck] by blast
    next
      case False
      then have nu: "ck_usage ck = None" and rest: "\<forall>c \<in> set (butlast cks). ck_usage c = None"
        using Cons.prems by auto
      from Cons.IH[OF rest, of "snd (chatChunk a ck)"] obtain pre u where
        r: "fst (chatLoop v (snd (chatChunk a ck)) cks) = pre @ u" "\<not> list_ex isUsage pre"
          "u = [] \<or> (\<exists>i out. u = [Usage i out])"
        by blast
      have "usageOut ck = []" using nu by (simp add: usageOut_def)
      then have "fst (chatLoop v a (ck # cks)) = (chunkBody a ck @ pre) @ u"
        using step r(1) by (simp add: chatChunk_body)
      moreover have "\<not> list_ex isUsage (chunkBody a ck @ pre)"
        using chunkBody_no_usage[of a ck] r(2) by simp
      ultimately show ?thesis using r(3) by blast
    qed
  qed
qed

lemma chatStream_shape:
  "fst (chatStream v s) =
     fst (chatLoop v [] (units s))
     @ (if snd (chatStream v s) = None
        then map ToolCallEnd (fst (snd (chatLoop v [] (units s)))) else [])"
proof -
  obtain out act err where l: "chatLoop v [] (units s) = (out, act, err)"
    by (cases "chatLoop v [] (units s)")
  show ?thesis
    by (cases err; cases "failure s") (simp_all add: chatStream_def l)
qed

lemma chatLoop_usage_count:
  "chatLoop v a cks = (out, a', None) \<Longrightarrow>
   length (filter isUsage out) = length (filter (\<lambda>ck. ck_usage ck \<noteq> None) cks)"
proof (induction cks arbitrary: a out)
  case Nil
  then show ?case by simp
next
  case (Cons ck cks)
  show ?case
  proof (cases "v (firstChoice ck)")
    case (Some err)
    with Cons.prems show ?thesis by simp
  next
    case None
    obtain rest a2 e2 where r: "chatLoop v (snd (chatChunk a ck)) cks = (rest, a2, e2)"
      by (cases "chatLoop v (snd (chatChunk a ck)) cks")
    from Cons.prems None r have o: "out = fst (chatChunk a ck) @ rest" and e: "e2 = None" and "a2 = a'"
      by (simp_all add: case_prod_unfold Let_def)
    have "length (filter isUsage rest) = length (filter (\<lambda>ck. ck_usage ck \<noteq> None) cks)"
      using Cons.IH[of "snd (chatChunk a ck)" rest] r e \<open>a2 = a'\<close> by simp
    moreover have "filter isUsage (chunkBody a ck) = []"
      using chunkBody_no_usage[of a ck] by (simp add: list_ex_iff filter_empty_conv)
    moreover have "length (filter isUsage (usageOut ck)) = (if ck_usage ck \<noteq> None then 1 else 0)"
      using usageOut_cases[of ck] by auto
    ultimately show ?thesis using o by (simp add: chatChunk_body)
  qed
qed

lemma chatStream_usage_count:
  assumes "snd (chatStream v s) = None"
  shows "length (filter isUsage (fst (chatStream v s)))
      = length (filter (\<lambda>ck. ck_usage ck \<noteq> None) (units s))"
proof -
  obtain out act err where l: "chatLoop v [] (units s) = (out, act, err)"
    by (cases "chatLoop v [] (units s)")
  from assms l have e: "err = None" and f: "failure s = None"
    by (auto simp: chatStream_def split: option.splits)
  have "fst (chatStream v s) = out @ map ToolCallEnd act"
    using l e f by (simp add: chatStream_def)
  moreover have "filter isUsage (map ToolCallEnd act) = []"
    by (simp add: filter_empty_conv)
  ultimately show ?thesis
    using chatLoop_usage_count[of v "[]" "units s" out act] l e by simp
qed

lemma messageTexts_no_usage: "\<not> list_ex isUsage (messageTexts cs)"
  by (induction cs) simp_all

lemma itemChunks_no_usage: "\<not> list_ex isUsage (itemChunks t it)"
  using messageTexts_no_usage by (simp add: itemChunks_def)

lemma event_usage_shape:
  "\<not> list_ex isUsage (fst (processResponsesEvent h e))
   \<or> (\<exists>i out. fst (processResponsesEvent h e) = [Usage i out])"
  using itemChunks_no_usage
  by (auto simp: processResponsesEvent_def Let_def toolArgsDelta_def usageChunk_def
      split: option.splits)

lemma event_output_toolArgs:
  "fst (processResponsesEvent h e) = fst (processResponsesEvent h' e)
   \<or> isToolArgsDelta (ev_type e)"
  by (auto simp: processResponsesEvent_def Let_def split: option.splits)

lemma event_usage_any_handler:
  "list_ex isUsage (fst (processResponsesEvent h e)) = yieldsUsage e"
proof (cases "isToolArgsDelta (ev_type e)")
  case True
  then have "\<not> isTextDelta (ev_type e) \<and> \<not> isReasoningDelta (ev_type e) \<and> \<not> isRefusalDelta (ev_type e)"
    by (auto simp: isToolArgsDelta_def isTextDelta_def isReasoningDelta_def isRefusalDelta_def)
  with True show ?thesis
    by (simp add: yieldsUsage_def processResponsesEvent_def Let_def toolArgsDelta_def)
next
  case False
  then show ?thesis
    using event_output_toolArgs[of h e newHandler] by (simp add: yieldsUsage_def)
qed

lemma responsesLoop_usage_last:
  "\<forall>e \<in> set (butlast es). \<not> yieldsUsage e \<Longrightarrow>
   \<exists>pre u. fst (responsesLoop h es) = pre @ u \<and> \<not> list_ex isUsage pre
      \<and> (u = [] \<or> (\<exists>i out. u = [Usage i out]))"
proof (induction es arbitrary: h)
  case Nil
  then show ?case by simp
next
  case (Cons e es)
  show ?case
  proof (cases "es = []")
    case True
    then have o: "fst (responsesLoop h (e # es)) = fst (processResponsesEvent h e)"
      by (simp add: case_prod_unfold Let_def)
    from event_usage_shape[of h e] show ?thesis
    proof
      assume "\<not> list_ex isUsage (fst (processResponsesEvent h e))"
      then have "fst (responsesLoop h (e # es)) = fst (processResponsesEvent h e) @ []
          \<and> \<not> list_ex isUsage (fst (processResponsesEvent h e))"
        using o by simp
      then show ?thesis by blast
    next
      assume "\<exists>i out. fst (processResponsesEvent h e) = [Usage i out]"
      then obtain i out where "fst (responsesLoop h (e # es)) = [] @ [Usage i out]"
        using o by auto
      moreover have "\<not> list_ex isUsage []" by simp
      ultimately show ?thesis by blast
    qed
  next
    case False
    then have nu: "\<not> yieldsUsage e" and rest: "\<forall>x \<in> set (butlast es). \<not> yieldsUsage x"
      using Cons.prems by auto
    from Cons.IH[OF rest, of "snd (processResponsesEvent h e)"] obtain pre u where
      r: "fst (responsesLoop (snd (processResponsesEvent h e)) es) = pre @ u"
        "\<not> list_ex isUsage pre" "u = [] \<or> (\<exists>i out. u = [Usage i out])"
      by blast
    have "\<not> list_ex isUsage (fst (processResponsesEvent h e))"
      using nu by (simp add: event_usage_any_handler)
    then have "\<not> list_ex isUsage (fst (processResponsesEvent h e) @ pre)"
      using r(2) by simp
    moreover have "fst (responsesLoop h (e # es)) = (fst (processResponsesEvent h e) @ pre) @ u"
      unfolding responsesLoop_Cons_fst r(1) by simp
    ultimately show ?thesis using r(3) by blast
  qed
qed

text \<open>
  C3 (amended). Every raw chat chunk yields at most one \<open>Usage\<close>, as the last chunk it
  yields, and every Responses event that yields a \<open>Usage\<close> yields nothing else. Hence,
  when no unit of the raw stream but the last carries usage, \<open>createMessage\<close> yields
  \<open>Usage\<close> at most once. On the chat path what follows it is exactly the finalization:
  one \<open>ToolCallEnd\<close> for each id still active when the loop ends, if the call ends
  normally, and nothing otherwise; on the Responses path nothing follows it. In general a
  chat call that ends normally yields exactly one \<open>Usage\<close> per raw chunk carrying usage.
\<close>

theorem C3_usage_last:
  assumes "getClientWithBase env = Inr key"
  shows "(\<exists>body u. fst (chatChunk active ck) = body @ u \<and> \<not> list_ex isUsage body
          \<and> (case ck_usage ck of
                None \<Rightarrow> u = []
              | Some x \<Rightarrow> u = [Usage (case cu_prompt_tokens x of None \<Rightarrow> 0 | Some n \<Rightarrow> n)
                                  (case cu_completion_tokens x of None \<Rightarrow> 0 | Some n \<Rightarrow> n)]))
   \<and> (\<not> list_ex isUsage (fst (processResponsesEvent h0 e))
        \<or> (\<exists>i out. fst (processResponsesEvent h0 e) = [Usage i out]))
   \<and> (\<not> prefersResponses (getModelInfo env)
        \<and> chatCreate env (buildChatRequest key (getModelInfo env) sys md) = Inr cs
      \<longrightarrow> ((\<forall>ck \<in> set (butlast (units cs)). ck_usage ck = None)
          \<longrightarrow> (\<exists>pre u. emitted (createMessage env h sys msgs md)
                    = pre @ u
                      @ (if thrown (createMessage env h sys msgs md) = None
                         then map ToolCallEnd
                           (fst (snd (chatLoop (verifyFinishReason env) [] (units cs))))
                         else [])
                \<and> \<not> list_ex isUsage pre \<and> (u = [] \<or> (\<exists>i out. u = [Usage i out]))))
        \<and> (thrown (createMessage env h sys msgs md) = None
          \<longrightarrow> length (filter isUsage (emitted (createMessage env h sys msgs md)))
              = length (filter (\<lambda>ck. ck_usage ck \<noteq> None) (units cs))))
   \<and> (prefersResponses (getModelInfo env)
        \<and> responsesCreate env (buildResponsesRequestBody key
             (formatFullConversation (sanitizeOpenAiCallId env) (jsonStringify env) sys msgs)
             sys md) = Inr es
        \<and> (\<forall>e \<in> set (butlast (units es)). \<not> yieldsUsage e)
      \<longrightarrow> (\<exists>pre u. emitted (createMessage env h sys msgs md) = pre @ u
            \<and> \<not> list_ex isUsage pre \<and> (u = [] \<or> (\<exists>i out. u = [Usage i out]))))"
proof -
  have unit1: "\<exists>body u. fst (chatChunk active ck) = body @ u \<and> \<not> list_ex isUsage body
          \<and> (case ck_usage ck of
                None \<Rightarrow> u = []
              | Some x \<Rightarrow> u = [Usage (case cu_prompt_tokens x of None \<Rightarrow> 0 | Some n \<Rightarrow> n)
                                  (case cu_completion_tokens x of None \<Rightarrow> 0 | Some n \<Rightarrow> n)])"
  proof -
    have "case ck_usage ck of
                None \<Rightarrow> usageOut ck = []
              | Some x \<Rightarrow> usageOut ck = [Usage (case cu_prompt_tokens x of None \<Rightarrow> 0 | Some n \<Rightarrow> n)
                                  (case cu_completion_tokens x of None \<Rightarrow> 0 | Some n \<Rightarrow> n)]"
      by (simp add: usageOut_def orZero_def split: option.splits)
    with chatChunk_body[of active ck] chunkBody_no_usage[of active ck] show ?thesis by blast
  qed
  have unit2: "\<not> list_ex isUsage (fst (processResponsesEvent h0 e))
        \<or> (\<exists>i out. fst (processResponsesEvent h0 e) = [Usage i out])"
    by (rule event_usage_shape)
  have chat1: "\<exists>pre u. emitted (createMessage env h sys msgs md)
                    = pre @ u
                      @ (if thrown (createMessage env h sys msgs md) = None
                         then map ToolCallEnd
                           (fst (snd (chatLoop (verifyFinishReason env) [] (units cs))))
                         else [])
                \<and> \<not> list_ex isUsage pre \<and> (u = [] \<or> (\<exists>i out. u = [Usage i out]))"
    if "\<not> prefersResponses (getModelInfo env)"
      and "chatCreate env (buildChatRequest key (getModelInfo env) sys md) = Inr cs"
      and "\<forall>ck \<in> set (butlast (units cs)). ck_usage ck = None"
  proof -
    from chatLoop_usage_last[OF that(3), of "verifyFinishReason env" "[]"] obtain pre u where
      r: "fst (chatLoop (verifyFinishReason env) [] (units cs)) = pre @ u"
        "\<not> list_ex isUsage pre" "u = [] \<or> (\<exists>i out. u = [Usage i out])"
      by blast
    have "emitted (createMessage env h sys msgs md)
        = (pre @ u) @ (if thrown (createMessage env h sys msgs md) = None
                         then map ToolCallEnd
                           (fst (snd (chatLoop (verifyFinishReason env) [] (units cs))))
                         else [])"
      unfolding createMessage_chat[OF assms that(1,2), of h msgs]
      by (simp only: chatStream_shape[of "verifyFinishReason env" cs] r(1))
    with r(2,3) show ?thesis by auto
  qed
  have chat2: "length (filter isUsage (emitted (createMessage env h sys msgs md)))
              = length (filter (\<lambda>ck. ck_usage ck \<noteq> None) (units cs))"
    if "\<not> prefersResponses (getModelInfo env)"
      and "chatCreate env (buildChatRequest key (getModelInfo env) sys md) = Inr cs"
      and "thrown (createMessage env h sys msgs md) = None"
    using createMessage_chat[OF assms that(1,2), of h msgs] that(3)
      chatStream_usage_count[of "verifyFinishReason env" cs]
    by simp
  have resp: "\<exists>pre u. emitted (createMessage env h sys msgs md) = pre @ u
            \<and> \<not> list_ex isUsage pre \<and> (u = [] \<or> (\<exists>i out. u = [Usage i out]))"
    if "prefersResponses (getModelInfo env)"
      and "responsesCreate env (buildResponsesRequestBody key
             (formatFullConversation (sanitizeOpenAiCallId env) (jsonStringify env) sys msgs)
             sys md) = Inr es"
      and "\<forall>e \<in> set (butlast (units es)). \<not> yieldsUsage e"
    using createMessage_responses(1)[OF assms that(1,2), of h]
      responsesLoop_usage_last[OF that(3), of "resetCall h"]
    by simp
  from unit1 unit2 chat1 chat2 resp show ?thesis by blast
qed

theorem C3_usage_last_witness:
  "length (filter isUsage (emitted (createMessage (baseEnv\<lparr>chatCreate := \<lambda>r. Inr scenarioStream\<rparr>)
      newHandler ''sys'' [] None))) = 1
   \<and> (\<exists>pre u. emitted (createMessage (baseEnv\<lparr>chatCreate := \<lambda>r. Inr scenarioStream\<rparr>)
          newHandler ''sys'' [] None) = pre @ u @ []
        \<and> \<not> list_ex isUsage pre \<and> (u = [] \<or> (\<exists>i out. u = [Usage i out])))
   \<and> (\<exists>pre u. emitted (createMessage (baseEnv\<lparr>chatCreate := \<lambda>r. Inr abruptStream\<rparr>)
          newHandler ''sys'' [] None) = pre @ u @ [ToolCallEnd ''z9'']
        \<and> \<not> list_ex isUsage pre \<and> (u = [] \<or> (\<exists>i out. u = [Usage i out])))
   \<and> (\<exists>pre u. emitted (createMessage
          (baseEnv\<lparr>getModelInfo := responsesInfo, responsesCreate := \<lambda>r. Inr completedStream\<rparr>)
          newHandler ''sys'' [] None) = pre @ u
        \<and> \<not> list_ex isUsage pre \<and> (u = [] \<or> (\<exists>i out. u = [Usage i out])))"
proof -
  let ?c = "baseEnv\<lparr>chatCreate := \<lambda>r. Inr scenarioStream\<rparr>"
  let ?a = "baseEnv\<lparr>chatCreate := \<lambda>r. Inr abruptStream\<rparr>"
  let ?r = "baseEnv\<lparr>getModelInfo := responsesInfo, responsesCreate := \<lambda>r. Inr completedStream\<rparr>"
  have kc: "getClientWithBase ?c = Inr ''tok''"
    by (simp add: getClientWithBase_def baseEnv_def)
  have ka: "getClientWithBase ?a = Inr ''tok''"
    by (simp add: getClientWithBase_def baseEnv_def)
  have kr: "getClientWithBase ?r = Inr ''tok''"
    by (simp add: getClientWithBase_def baseEnv_def)
  have pc: "\<not> prefersResponses (getModelInfo ?c)
      \<and> chatCreate ?c (buildChatRequest ''tok'' (getModelInfo ?c) ''sys'' None) = Inr scenarioStream"
    by (simp add: prefersResponses_def baseEnv_def)
  have pa: "\<not> prefersResponses (getModelInfo ?a)
      \<and> chatCreate ?a (buildChatRequest ''tok'' (getModelInfo ?a) ''sys'' None) = Inr abruptStream"
    by (simp add: prefersResponses_def baseEnv_def)
  have uc: "\<forall>ck \<in> set (butlast (units scenarioStream)). ck_usage ck = None"
    by (simp add: scenarioStream_def deltaChunk_def)
  have ua: "\<forall>ck \<in> set (butlast (units abruptStream)). ck_usage ck = None"
    by (simp add: abruptStream_def)
  have tc: "thrown (createMessage ?c newHandler ''sys'' [] None) = None"
    by (simp add: create_eval scenarioStream_def chat_eval)
  have ta: "thrown (createMessage ?a newHandler ''sys'' [] None) = None"
    by (simp add: create_eval abruptStream_def chat_eval)
  have ac: "fst (snd (chatLoop (verifyFinishReason ?c) [] (units scenarioStream))) = []"
    by (simp add: baseEnv_def scenarioStream_def chat_eval)
  have aa: "fst (snd (chatLoop (verifyFinishReason ?a) [] (units abruptStream))) = [''z9'']"
    by (simp add: baseEnv_def abruptStream_def chat_eval)
  have nc: "length (filter (\<lambda>ck. ck_usage ck \<noteq> None) (units scenarioStream)) = 1"
    by (simp add: scenarioStream_def deltaChunk_def)
  have pr: "prefersResponses (getModelInfo ?r)
      \<and> responsesCreate ?r (buildResponsesRequestBody ''tok''
             (formatFullConversation (sanitizeOpenAiCallId ?r) (jsonStringify ?r) ''sys'' [])
             ''sys'' None) = Inr completedStream"
    by (simp add: prefersResponses_def responsesInfo_def)
  have ur: "\<forall>e \<in> set (butlast (units completedStream)). \<not> yieldsUsage e"
    by (simp add: completedStream_def yieldsUsage_def responses_eval)
  note t1 = C3_usage_last[OF kc, of "[]" "deltaChunk noDelta None None" newHandler noEvent
      "''sys''" None scenarioStream newHandler "[]" completedStream]
  note t2 = C3_usage_last[OF ka, of "[]" "deltaChunk noDelta None None" newHandler noEvent
      "''sys''" None abruptStream newHandler "[]" completedStream]
  note t3 = C3_usage_last[OF kr, of "[]" "deltaChunk noDelta None None" newHandler noEvent
      "''sys''" None scenarioStream newHandler "[]" completedStream]
  have a: "length (filter isUsage (emitted (createMessage ?c newHandler ''sys'' [] None))) = 1"
    using t1 pc tc nc by simp
  have b: "\<exists>pre u. emitted (createMessage ?c newHandler ''sys'' [] None) = pre @ u @ []
        \<and> \<not> list_ex isUsage pre \<and> (u = [] \<or> (\<exists>i out. u = [Usage i out]))"
    using t1 pc uc tc ac by simp
  have c: "\<exists>pre u. emitted (createMessage ?a newHandler ''sys'' [] None)
          = pre @ u @ [ToolCallEnd ''z9'']
        \<and> \<not> list_ex isUsage pre \<and> (u = [] \<or> (\<exists>i out. u = [Usage i out]))"
    using t2 pa ua ta aa by simp
  have d: "\<exists>pre u. emitted (createMessage ?r newHandler ''sys'' [] None) = pre @ u
        \<and> \<not> list_ex isUsage pre \<and> (u = [] \<or> (\<exists>i out. u = [Usage i out]))"
    using t3 pr ur by blast
  from a b c d show ?thesis by blast
qed

subsection \<open>C1: every announced tool call is ended\<close>

lemma openIds_append: "openIds S (xs @ ys) = openIds (openIds S xs) ys"
  by (simp add: openIds_def)

lemma openIds_Nil: "openIds S [] = S"
  by (simp add: openIds_def)

lemma openIds_Cons: "openIds S (c # cs) = openIds (track c S) cs"
  by (simp add: openIds_def)

lemma openIds_ends: "openIds S (map ToolCallEnd xs) = S - set xs"
  by (induction xs arbitrary: S) (auto simp: openIds_Nil openIds_Cons)

lemma openIds_closed: "i \<in> S \<Longrightarrow> i \<notin> openIds S post \<Longrightarrow> ToolCallEnd i \<in> set post"
proof (induction post arbitrary: S)
  case Nil
  then show ?case by (simp add: openIds_Nil)
next
  case (Cons c post)
  show ?case
  proof (cases "c = ToolCallEnd i")
    case True
    then show ?thesis by simp
  next
    case False
    then have "i \<in> track c S"
      using Cons.prems(1) by (cases c) auto
    with Cons.IH[of "track c S"] Cons.prems(2) show ?thesis
      by (simp add: openIds_Cons)
  qed
qed

lemma setAdd_set: "set (setAdd xs x) = insert x (set xs)"
  by (auto simp: setAdd_def)

lemma setAdd_distinct: "distinct xs \<Longrightarrow> distinct (setAdd xs x)"
  by (simp add: setAdd_def)

lemma toolCallsLoop_Cons_snd:
  "snd (toolCallsLoop a (tc # tcs)) =
     snd (toolCallsLoop (if truthy (tc_id tc) then setAdd a (the (tc_id tc)) else a) tcs)"
  by (simp add: case_prod_unfold Let_def)

lemma toolCallsLoop_active:
  "set (snd (toolCallsLoop a tcs)) = set a \<union> set (fragmentIds tcs)"
  by (induction tcs arbitrary: a)
     (auto simp: fragmentIds_def case_prod_unfold Let_def setAdd_set)

lemma toolCallsLoop_distinct: "distinct a \<Longrightarrow> distinct (snd (toolCallsLoop a tcs))"
  by (induction tcs arbitrary: a) (simp_all add: case_prod_unfold Let_def setAdd_distinct)

lemma openIds_partials:
  "openIds S (map (\<lambda>tc. ToolCallPartial (tc_index tc) (tc_id tc) (tcName tc) (tcArguments tc)) tcs)
     = S \<union> set (fragmentIds tcs)"
  by (induction tcs arbitrary: S) (auto simp: openIds_Nil openIds_Cons fragmentIds_def)

lemma toolOut_active: "set (snd (toolOut a ck)) = set a \<union> set (chunkIds ck)"
  by (simp add: toolOut_def chunkIds_def toolCallsLoop_active split: option.splits)

lemma toolOut_distinct: "distinct a \<Longrightarrow> distinct (snd (toolOut a ck))"
  by (simp add: toolOut_def toolCallsLoop_distinct split: option.splits)

lemma toolOut_open: "openIds S (fst (toolOut a ck)) = S \<union> set (chunkIds ck)"
  by (simp add: toolOut_def chunkIds_def toolCallsLoop_forwards openIds_partials openIds_Nil
      split: option.splits)

lemma textOut_open: "openIds S (textOut ck) = S"
  by (simp add: textOut_def openIds_Nil openIds_Cons split: option.splits)

lemma reasoningOut_open: "openIds S (reasoningOut ck) = S"
  by (simp add: reasoningOut_def openIds_Nil openIds_Cons)

lemma usageOut_open: "openIds S (usageOut ck) = S"
  by (simp add: usageOut_def openIds_Nil openIds_Cons split: option.splits)

lemma endOut_open: "openIds S (fst (endOut a ck)) = (if finishReason ck = Some ''tool_calls'' then S - set a else S)"
  by (auto simp: endOut_def openIds_ends openIds_Nil)

lemma endOut_active:
  "snd (endOut a ck) = (if finishReason ck = Some ''tool_calls'' then [] else a)"
  by (auto simp: endOut_def)

lemma chatChunk_fst:
  "fst (chatChunk a ck) = textOut ck @ fst (toolOut a ck) @ reasoningOut ck
      @ fst (endOut (snd (toolOut a ck)) ck) @ usageOut ck"
  by (simp add: chatChunk_def case_prod_unfold Let_def)

lemma chatChunk_snd: "snd (chatChunk a ck) = snd (endOut (snd (toolOut a ck)) ck)"
  by (simp add: chatChunk_def case_prod_unfold Let_def)

lemma chatChunk_open:
  "S \<subseteq> set a \<Longrightarrow> openIds S (fst (chatChunk a ck)) \<subseteq> set (snd (chatChunk a ck))"
  by (auto simp: chatChunk_fst chatChunk_snd openIds_append textOut_open toolOut_open
      reasoningOut_open endOut_open usageOut_open endOut_active toolOut_active)

lemma chatLoop_Cons_rest:
  "v (firstChoice ck) = None \<Longrightarrow>
   snd (chatLoop v a (ck # cks)) = snd (chatLoop v (snd (chatChunk a ck)) cks)"
  by (simp add: case_prod_unfold Let_def)

lemma chatLoop_open:
  "S \<subseteq> set a \<Longrightarrow> snd (snd (chatLoop v a cks)) = None \<Longrightarrow>
   openIds S (fst (chatLoop v a cks)) \<subseteq> set (fst (snd (chatLoop v a cks)))"
proof (induction cks arbitrary: S a)
  case Nil
  then show ?case by (simp add: openIds_Nil)
next
  case (Cons ck cks)
  show ?case
  proof (cases "v (firstChoice ck)")
    case (Some err)
    with Cons.prems show ?thesis by simp
  next
    case None
    note f = chatLoop_Cons_ok[of v ck a cks, OF None]
    note r = chatLoop_Cons_rest[of v ck a cks, OF None]
    have "openIds (openIds S (fst (chatChunk a ck))) (fst (chatLoop v (snd (chatChunk a ck)) cks))
        \<subseteq> set (fst (snd (chatLoop v (snd (chatChunk a ck)) cks)))"
      using Cons.IH[OF chatChunk_open[OF Cons.prems(1), of ck]] Cons.prems(2) r by simp
    then show ?thesis
      unfolding f r openIds_append .
  qed
qed

lemma chatStream_open:
  assumes "snd (chatStream v s) = None"
  shows "openIds {} (fst (chatStream v s)) = {}"
proof -
  obtain out act err where l: "chatLoop v [] (units s) = (out, act, err)"
    by (cases "chatLoop v [] (units s)")
  from assms l have e: "err = None" and f: "failure s = None"
    by (auto simp: chatStream_def split: option.splits)
  have o: "fst (chatStream v s) = out @ map ToolCallEnd act"
    using l e f by (simp add: chatStream_def)
  have "openIds {} out \<subseteq> set act"
    using chatLoop_open[of "{}" "[]" v "units s"] l e by simp
  then show ?thesis
    by (simp add: o openIds_append openIds_ends)
qed

lemma chatStream_partial_closed:
  assumes "snd (chatStream v s) = None"
    and "fst (chatStream v s) = pre @ c # post"
    and "partialId c = Some i" and "i \<noteq> []"
  shows "ToolCallEnd i \<in> set post"
proof -
  from assms(3,4) have "i \<in> track c (openIds {} pre)"
    by (cases c) auto
  moreover have "openIds (track c (openIds {} pre)) post = {}"
    using chatStream_open[OF assms(1)] assms(2) by (simp add: openIds_append openIds_Cons)
  ultimately show ?thesis
    using openIds_closed[of i "track c (openIds {} pre)" post] by simp
qed

lemma count_list_ends: "count_list (map ToolCallEnd xs) (ToolCallEnd i) = count_list xs i"
  by (induction xs) simp_all

lemma count_list_distinct: "distinct xs \<Longrightarrow> count_list xs i = (if i \<in> set xs then 1 else 0)"
  by (induction xs) auto

lemma count_list_absent: "x \<notin> set xs \<Longrightarrow> count_list xs x = 0"
  by (induction xs) auto

lemma toolOut_no_end: "ToolCallEnd i \<notin> set (fst (toolOut a ck))"
  by (auto simp: toolOut_def toolCallsLoop_forwards split: option.splits)

lemma chatChunk_count:
  assumes "distinct a"
  shows "count_list (fst (chatChunk a ck)) (ToolCallEnd i)
       + (if i \<in> set (snd (chatChunk a ck)) then 1 else 0)
     = (if i \<in> set a \<union> set (chunkIds ck) then 1 else 0)"
proof -
  let ?t = "snd (toolOut a ck)"
  have d: "distinct ?t" using assms by (rule toolOut_distinct)
  have s: "set ?t = set a \<union> set (chunkIds ck)" by (rule toolOut_active)
  have z: "count_list (textOut ck) (ToolCallEnd i) = 0"
      "count_list (reasoningOut ck) (ToolCallEnd i) = 0"
      "count_list (usageOut ck) (ToolCallEnd i) = 0"
      "count_list (fst (toolOut a ck)) (ToolCallEnd i) = 0"
    using toolOut_no_end[of i a ck]
    by (auto simp: textOut_def reasoningOut_def usageOut_def count_list_absent split: option.splits)
  show ?thesis
  proof (cases "finishReason ck = Some ''tool_calls'' \<and> ?t \<noteq> []")
    case True
    then have "fst (endOut ?t ck) = map ToolCallEnd ?t" and "snd (endOut ?t ck) = []"
      by (simp_all add: endOut_def)
    then show ?thesis
      using z d s by (simp add: chatChunk_fst chatChunk_snd count_list_ends count_list_distinct)
  next
    case False
    then have "fst (endOut ?t ck) = []" and "snd (endOut ?t ck) = ?t"
      by (auto simp: endOut_def)
    then show ?thesis
      using z s by (simp add: chatChunk_fst chatChunk_snd)
  qed
qed

lemma chatChunk_distinct: "distinct a \<Longrightarrow> distinct (snd (chatChunk a ck))"
  by (simp add: chatChunk_snd endOut_active toolOut_distinct)

lemma chatChunk_no_flush:
  "finishReason ck \<noteq> Some ''tool_calls'' \<Longrightarrow> count_list (fst (chatChunk a ck)) (ToolCallEnd i) = 0"
  using toolOut_no_end[of i a ck]
  by (auto simp: chatChunk_fst endOut_def textOut_def reasoningOut_def usageOut_def
      count_list_absent split: option.splits)

lemma chatChunk_flush_clears:
  "finishReason ck = Some ''tool_calls'' \<Longrightarrow> snd (chatChunk a ck) = []"
  by (simp add: chatChunk_snd endOut_active)

lemma chatLoop_distinct: "distinct a \<Longrightarrow> distinct (fst (snd (chatLoop v a cks)))"
proof (induction cks arbitrary: a)
  case Nil
  then show ?case by simp
next
  case (Cons ck cks)
  show ?case
  proof (cases "v (firstChoice ck)")
    case (Some err)
    with Cons.prems show ?thesis by simp
  next
    case None
    show ?thesis
      unfolding chatLoop_Cons_rest[of v ck a cks, OF None]
      using Cons.IH[OF chatChunk_distinct[OF Cons.prems]] .
  qed
qed

lemma chatLoop_count_absent:
  "distinct a \<Longrightarrow> i \<notin> set (concat (map chunkIds cks)) \<Longrightarrow>
   count_list (fst (chatLoop v a cks)) (ToolCallEnd i)
     + (if i \<in> set (fst (snd (chatLoop v a cks))) then 1 else 0)
   = (if i \<in> set a then 1 else 0)"
proof (induction cks arbitrary: a)
  case Nil
  then show ?case by simp
next
  case (Cons ck cks)
  show ?case
  proof (cases "v (firstChoice ck)")
    case (Some err)
    then show ?thesis by simp
  next
    case None
    have i1: "i \<notin> set (chunkIds ck)" and i2: "i \<notin> set (concat (map chunkIds cks))"
      using Cons.prems(2) by auto
    have c: "count_list (fst (chatChunk a ck)) (ToolCallEnd i)
       + (if i \<in> set (snd (chatChunk a ck)) then 1 else 0) = (if i \<in> set a then 1 else 0)"
      using chatChunk_count[OF Cons.prems(1), of ck i] i1 by simp
    have r: "count_list (fst (chatLoop v (snd (chatChunk a ck)) cks)) (ToolCallEnd i)
     + (if i \<in> set (fst (snd (chatLoop v (snd (chatChunk a ck)) cks))) then 1 else 0)
     = (if i \<in> set (snd (chatChunk a ck)) then 1 else 0)"
      using Cons.IH[OF chatChunk_distinct[OF Cons.prems(1)] i2] .
    show ?thesis
      unfolding chatLoop_Cons_ok[of v ck a cks, OF None] chatLoop_Cons_rest[of v ck a cks, OF None]
      using c r by simp
  qed
qed

lemma chatLoop_count_once:
  "distinct a \<Longrightarrow> noReannounce i cks \<Longrightarrow>
   count_list (fst (chatLoop v a cks)) (ToolCallEnd i)
     + (if i \<in> set (fst (snd (chatLoop v a cks))) then 1 else 0) \<le> 1"
proof (induction cks arbitrary: a)
  case Nil
  then show ?case by simp
next
  case (Cons ck cks)
  show ?case
  proof (cases "v (firstChoice ck)")
    case (Some err)
    then show ?thesis by simp
  next
    case None
    note unf = chatLoop_Cons_ok[of v ck a cks, OF None] chatLoop_Cons_rest[of v ck a cks, OF None]
    have d1: "distinct (snd (chatChunk a ck))"
      using Cons.prems(1) by (rule chatChunk_distinct)
    show ?thesis
    proof (cases "finishReason ck = Some ''tool_calls''")
      case True
      then have i2: "i \<notin> set (concat (map chunkIds cks))"
        using Cons.prems(2) by simp
      have e: "snd (chatChunk a ck) = []"
        using True by (rule chatChunk_flush_clears)
      have r: "count_list (fst (chatLoop v [] cks)) (ToolCallEnd i)
         + (if i \<in> set (fst (snd (chatLoop v [] cks))) then 1 else 0) = 0"
        using chatLoop_count_absent[of "[]" i cks v] i2 by simp
      have c: "count_list (fst (chatChunk a ck)) (ToolCallEnd i) \<le> 1"
        using chatChunk_count[OF Cons.prems(1), of ck i] by (simp split: if_splits)
      show ?thesis
        unfolding unf e using r c by simp
    next
      case False
      then have n: "noReannounce i cks" using Cons.prems(2) by simp
      have c: "count_list (fst (chatChunk a ck)) (ToolCallEnd i) = 0"
        using False by (rule chatChunk_no_flush)
      show ?thesis
        unfolding unf using Cons.IH[OF d1 n] c by simp
    qed
  qed
qed

lemma chatStream_count_once:
  assumes "noReannounce i (units s)"
  shows "count_list (fst (chatStream v s)) (ToolCallEnd i) \<le> 1"
proof -
  obtain out act err where l: "chatLoop v [] (units s) = (out, act, err)"
    by (cases "chatLoop v [] (units s)")
  have c: "count_list out (ToolCallEnd i) + (if i \<in> set act then 1 else 0) \<le> 1"
    using chatLoop_count_once[of "[]" i "units s" v] assms l by simp
  have d: "distinct act"
    using chatLoop_distinct[of "[]" v "units s"] l by simp
  have "fst (chatStream v s) = out \<or> fst (chatStream v s) = out @ map ToolCallEnd act"
    using l by (auto simp: chatStream_def split: option.splits)
  then show ?thesis
    using c d by (auto simp: count_list_ends count_list_distinct)
qed

lemma messageTexts_no_end: "\<not> list_ex isToolCallEnd (messageTexts cs)"
  by (induction cs) simp_all

lemma processResponsesEvent_no_end: "\<not> list_ex isToolCallEnd (fst (processResponsesEvent h e))"
  using messageTexts_no_end
  by (auto simp: processResponsesEvent_def Let_def toolArgsDelta_def usageChunk_def itemChunks_def
      split: option.splits)

lemma responsesLoop_no_end: "\<not> list_ex isToolCallEnd (fst (responsesLoop h es))"
proof (induction es arbitrary: h)
  case Nil
  then show ?case by simp
next
  case (Cons e es)
  show ?case
    unfolding responsesLoop_Cons_fst
    using processResponsesEvent_no_end[of h e] Cons.IH[of "snd (processResponsesEvent h e)"]
    by simp
qed

text \<open>
  The claim as stated fails. On the Responses path no \<open>ToolCallEnd\<close> is ever yielded:
  the call \<open>t1\<close> receives a \<open>ToolCallPartial\<close>, its arguments-done event is ignored and
  the stream ends normally without an end for it. On the chat path an id announced
  again after a flush is ended twice.
\<close>

theorem C1_counterexample:
  "emitted (createMessage
       (baseEnv\<lparr>getModelInfo := responsesInfo, responsesCreate := \<lambda>r. Inr pendingCallStream\<rparr>)
       newHandler ''sys'' [] None)
     = [ToolCallPartial (Some 0) (Some ''t1'') (Some ''search'') (Some ''{}'')]
   \<and> thrown (createMessage
       (baseEnv\<lparr>getModelInfo := responsesInfo, responsesCreate := \<lambda>r. Inr pendingCallStream\<rparr>)
       newHandler ''sys'' [] None) = None
   \<and> emitted (createMessage (baseEnv\<lparr>chatCreate := \<lambda>r. Inr reannounced\<rparr>)
       newHandler ''sys'' [] None)
     = [ToolCallPartial (Some 0) (Some ''c1'') (Some ''lookup'') (Some ''{''), ToolCallEnd ''c1'',
        ToolCallPartial (Some 0) (Some ''c1'') None (Some ''}''), ToolCallEnd ''c1'']"
proof -
  have a: "createMessage
       (baseEnv\<lparr>getModelInfo := responsesInfo, responsesCreate := \<lambda>r. Inr pendingCallStream\<rparr>)
       newHandler ''sys'' [] None
     = \<lparr>emitted = [ToolCallPartial (Some 0) (Some ''t1'') (Some ''search'') (Some ''{}'')],
        thrown = None,
        requests = [ResponsesStreamRequest (buildResponsesRequestBody ''tok'' [] ''sys'' None)],
        final = newHandler\<lparr>pendingToolCallId := Some ''t1'', pendingToolCallName := Some ''search''\<rparr>\<rparr>"
    by (simp add: createMessage_def getClientWithBase_def prefersResponses_def baseEnv_def
        responsesInfo_def pendingCallStream_def formatFullConversation_def responses_eval)
  have b: "emitted (createMessage (baseEnv\<lparr>chatCreate := \<lambda>r. Inr reannounced\<rparr>)
       newHandler ''sys'' [] None)
     = [ToolCallPartial (Some 0) (Some ''c1'') (Some ''lookup'') (Some ''{''), ToolCallEnd ''c1'',
        ToolCallPartial (Some 0) (Some ''c1'') None (Some ''}''), ToolCallEnd ''c1'']"
    by (simp add: create_eval reannounced_def chat_eval)
  from a b show ?thesis by simp
qed

text \<open>
  C1 (amended). On the chat-completions path, when the call ends normally, every
  \<open>ToolCallPartial\<close> that carries a non-empty id is followed by a \<open>ToolCallEnd\<close> for that
  id (yielded at a chunk with \<open>finish_reason = tool_calls\<close>, or synthetically at
  finalization when the raw stream ends without one); and an id that no chunk announces
  again after a chunk with \<open>finish_reason = tool_calls\<close> receives at most one
  \<open>ToolCallEnd\<close>, hence exactly one. On the Responses path \<open>createMessage\<close> yields no
  \<open>ToolCallEnd\<close> at all.
\<close>

theorem C1_tool_call_end:
  assumes "getClientWithBase env = Inr key"
  shows "(\<not> prefersResponses (getModelInfo env)
        \<and> chatCreate env (buildChatRequest key (getModelInfo env) sys md) = Inr cs
      \<longrightarrow> (thrown (createMessage env h sys msgs md) = None
          \<longrightarrow> (\<forall>pre c post i. emitted (createMessage env h sys msgs md) = pre @ c # post
                  \<and> partialId c = Some i \<and> i \<noteq> []
                \<longrightarrow> ToolCallEnd i \<in> set post))
        \<and> (\<forall>i. noReannounce i (units cs)
          \<longrightarrow> count_list (emitted (createMessage env h sys msgs md)) (ToolCallEnd i) \<le> 1))
   \<and> (prefersResponses (getModelInfo env)
      \<longrightarrow> \<not> list_ex isToolCallEnd (emitted (createMessage env h sys msgs md)))"
proof -
  have closed: "ToolCallEnd i \<in> set post"
    if "\<not> prefersResponses (getModelInfo env)"
      and "chatCreate env (buildChatRequest key (getModelInfo env) sys md) = Inr cs"
      and "thrown (createMessage env h sys msgs md) = None"
      and "emitted (createMessage env h sys msgs md) = pre @ c # post"
      and "partialId c = Some i" and "i \<noteq> []"
    for pre c post i
    using createMessage_chat[OF assms that(1,2), of h msgs] that(3,4,5,6)
      chatStream_partial_closed[of "verifyFinishReason env" cs pre c post i]
    by simp
  have once: "count_list (emitted (createMessage env h sys msgs md)) (ToolCallEnd i) \<le> 1"
    if "\<not> prefersResponses (getModelInfo env)"
      and "chatCreate env (buildChatRequest key (getModelInfo env) sys md) = Inr cs"
      and "noReannounce i (units cs)"
    for i
    using createMessage_chat(1)[OF assms that(1,2), of h msgs]
      chatStream_count_once[OF that(3), of "verifyFinishReason env"]
    by simp
  have none: "\<not> list_ex isToolCallEnd (emitted (createMessage env h sys msgs md))"
    if p: "prefersResponses (getModelInfo env)"
  proof (cases "responsesCreate env (buildResponsesRequestBody key
           (formatFullConversation (sanitizeOpenAiCallId env) (jsonStringify env) sys msgs)
           sys md)")
    case (Inl err)
    then show ?thesis
      using createMessage_responses_refused[OF assms p, of sys msgs md err h] by simp
  next
    case (Inr s)
    then show ?thesis
      using createMessage_responses(1)[OF assms p, of sys msgs md s h]
        responsesLoop_no_end[of "resetCall h" "units s"]
      by simp
  qed
  from closed once none show ?thesis by blast
qed

theorem C1_tool_call_end_witness:
  "emitted (createMessage (baseEnv\<lparr>chatCreate := \<lambda>r. Inr abruptStream\<rparr>) newHandler ''sys'' [] None)
     = [ToolCallPartial (Some 0) (Some ''z9'') (Some ''lookup'') (Some ''{''), ToolCallEnd ''z9'']
   \<and> ToolCallEnd ''z9'' \<in> set (tl (emitted (createMessage
        (baseEnv\<lparr>chatCreate := \<lambda>r. Inr abruptStream\<rparr>) newHandler ''sys'' [] None)))
   \<and> count_list (emitted (createMessage (baseEnv\<lparr>chatCreate := \<lambda>r. Inr abruptStream\<rparr>)
        newHandler ''sys'' [] None)) (ToolCallEnd ''z9'') \<le> 1
   \<and> \<not> list_ex isToolCallEnd (emitted (createMessage
        (baseEnv\<lparr>getModelInfo := responsesInfo, responsesCreate := \<lambda>r. Inr pendingCallStream\<rparr>)
        newHandler ''sys'' [] None))"
proof -
  let ?c = "baseEnv\<lparr>chatCreate := \<lambda>r. Inr abruptStream\<rparr>"
  let ?r = "baseEnv\<lparr>getModelInfo := responsesInfo, responsesCreate := \<lambda>r. Inr pendingCallStream\<rparr>"
  let ?p = "ToolCallPartial (Some 0) (Some ''z9'') (Some ''lookup'') (Some ''{'')"
  have kc: "getClientWithBase ?c = Inr ''tok''"
    by (simp add: getClientWithBase_def baseEnv_def)
  have kr: "getClientWithBase ?r = Inr ''tok''"
    by (simp add: getClientWithBase_def baseEnv_def)
  have pc: "\<not> prefersResponses (getModelInfo ?c)
      \<and> chatCreate ?c (buildChatRequest ''tok'' (getModelInfo ?c) ''sys'' None) = Inr abruptStream"
    by (simp add: prefersResponses_def baseEnv_def)
  have pr: "prefersResponses (getModelInfo ?r)"
    by (simp add: prefersResponses_def responsesInfo_def)
  have ev: "emitted (createMessage ?c newHandler ''sys'' [] None) = [] @ ?p # [ToolCallEnd ''z9'']"
    and th: "thrown (createMessage ?c newHandler ''sys'' [] None) = None"
    by (simp_all add: create_eval abruptStream_def chat_eval)
  have id: "partialId ?p = Some ''z9'' \<and> ''z9'' \<noteq> []" by simp
  have nr: "noReannounce ''z9'' (units abruptStream)"
    by (simp add: abruptStream_def)
  note t = C1_tool_call_end[OF kc, of "''sys''" None abruptStream newHandler "[]"]
  have a: "ToolCallEnd ''z9'' \<in> set [ToolCallEnd ''z9'']"
    using t pc th ev id by blast
  have b: "count_list (emitted (createMessage ?c newHandler ''sys'' [] None)) (ToolCallEnd ''z9'') \<le> 1"
    using t pc nr by blast
  have c: "\<not> list_ex isToolCallEnd (emitted (createMessage ?r newHandler ''sys'' [] None))"
    using C1_tool_call_end[OF kr, of "''sys''" None abruptStream newHandler "[]"] pr by blast
  from a b c ev show ?thesis by simp
qed

subsection \<open>C8: scope of the pending identity\<close>

lemma resetCall_const: "resetCall h = resetCall h'"
  by (cases h, cases h') (simp add: resetCall_def)

lemma interleaved_Feed_fst:
  "fst (interleaved h ((c, Feed e) # rest)) =
     map (Pair c) (fst (processResponsesEvent h e))
     @ fst (interleaved (snd (processResponsesEvent h e)) rest)"
  by (simp add: case_prod_unfold Let_def)

lemma interleaved_Feed_snd:
  "snd (interleaved h ((c, Feed e) # rest)) = snd (interleaved (snd (processResponsesEvent h e)) rest)"
  by (simp add: case_prod_unfold Let_def)

lemma interleaved_append:
  "fst (interleaved h (xs @ ys)) = fst (interleaved h xs) @ fst (interleaved (snd (interleaved h xs)) ys)"
proof (induction h xs rule: interleaved.induct)
  case (1 h)
  then show ?case by simp
next
  case (2 h c rest)
  then show ?case by simp
next
  case (3 h c e rest)
  show ?case
    using "3.IH"[of "(fst (processResponsesEvent h e), snd (processResponsesEvent h e))"
        "fst (processResponsesEvent h e)" "snd (processResponsesEvent h e)"]
    by (simp only: append_Cons interleaved_Feed_fst interleaved_Feed_snd append_assoc) simp
qed

lemma yieldedBy_append: "yieldedBy c (xs @ ys) = yieldedBy c xs @ yieldedBy c ys"
  by (simp add: yieldedBy_def)

lemma yieldedBy_own: "yieldedBy c (map (Pair c) xs) = xs"
  by (induction xs) (simp_all add: yieldedBy_def)

lemma yieldedBy_other: "a \<noteq> c \<Longrightarrow> yieldedBy c (map (Pair a) xs) = []"
  by (induction xs) (simp_all add: yieldedBy_def)

lemma interleaved_feeds:
  "yieldedBy c (fst (interleaved h (map (\<lambda>e. (c, Feed e)) es))) = fst (responsesLoop h es)"
proof (induction es arbitrary: h)
  case Nil
  then show ?case by (simp add: yieldedBy_def)
next
  case (Cons e es)
  show ?case
    using Cons.IH[of "snd (processResponsesEvent h e)"]
    by (simp only: list.map interleaved_Feed_fst yieldedBy_append yieldedBy_own
        responsesLoop_Cons_fst)
qed

lemma interleaved_alone:
  "yieldedBy c (fst (interleaved h (alone c es))) = fst (responsesLoop (resetCall h) es)"
  by (simp add: alone_def interleaved_feeds)

lemma interleaved_other_call:
  "a \<noteq> c \<Longrightarrow> yieldedBy c (fst (interleaved h (map (Pair a) acts))) = []"
proof (induction acts arbitrary: h)
  case Nil
  then show ?case by (simp add: yieldedBy_def)
next
  case (Cons x acts)
  show ?case
  proof (cases x)
    case Begin
    with Cons show ?thesis by simp
  next
    case (Feed e)
    have "yieldedBy c (map (Pair a) (fst (processResponsesEvent h e))) = []"
      using Cons.prems by (rule yieldedBy_other)
    with Cons Feed show ?thesis
      by (simp add: interleaved_Feed_fst yieldedBy_append del: interleaved.simps)
  qed
qed

text \<open>
  The claim as stated fails. The pending identity and the output buffer are fields of the
  handler instance: after a call has ended they still hold what it recorded, and two calls
  interleaved on one handler share them. Here call 1 receives an arguments delta without
  any identity; alone it yields nothing, but scheduled after call 0 has recorded
  \<open>(t1, search)\<close> it yields a \<open>ToolCallPartial\<close> with the identity of call 0.
\<close>

theorem C8_counterexample:
  "pendingToolCallId (final (createMessage
       (baseEnv\<lparr>getModelInfo := responsesInfo, responsesCreate := \<lambda>r. Inr pendingCallStream\<rparr>)
       newHandler ''sys'' [] None)) = Some ''t1''
   \<and> yieldedBy 1 (fst (interleaved newHandler
        [(0, Begin), (1, Begin), (0, Feed addedT1), (1, Feed anonDelta)]))
      = [ToolCallPartial (Some 0) (Some ''t1'') (Some ''search'') (Some ''{}'')]
   \<and> yieldedBy 1 (fst (interleaved newHandler (alone 1 [anonDelta]))) = []"
proof -
  have a: "final (createMessage
       (baseEnv\<lparr>getModelInfo := responsesInfo, responsesCreate := \<lambda>r. Inr pendingCallStream\<rparr>)
       newHandler ''sys'' [] None)
      = newHandler\<lparr>pendingToolCallId := Some ''t1'', pendingToolCallName := Some ''search''\<rparr>"
    by (simp add: createMessage_def getClientWithBase_def prefersResponses_def baseEnv_def
        responsesInfo_def pendingCallStream_def formatFullConversation_def responses_eval)
  have b: "yieldedBy 1 (fst (interleaved newHandler
        [(0, Begin), (1, Begin), (0, Feed addedT1), (1, Feed anonDelta)]))
      = [ToolCallPartial (Some 0) (Some ''t1'') (Some ''search'') (Some ''{}'')]"
    by (simp add: yieldedBy_def addedT1_def anonDelta_def responses_eval)
  have c: "yieldedBy 1 (fst (interleaved newHandler (alone 1 [anonDelta]))) = []"
    by (simp add: yieldedBy_def alone_def anonDelta_def responses_eval)
  from a b c show ?thesis by simp
qed

text \<open>
  C8 (amended). What a call of \<open>createMessage\<close> yields, throws and sends does not depend
  on the handler's fields at its start: the Responses path resets them before reading
  them, the chat path never reads them. Hence a call that starts after every step of an
  earlier call on the same handler yields what it yields alone; no identity recorded by
  the earlier call reaches it.
\<close>

theorem C8_reset_at_start:
  "emitted (createMessage env h sys msgs md) = emitted (createMessage env h' sys msgs md)
   \<and> thrown (createMessage env h sys msgs md) = thrown (createMessage env h' sys msgs md)
   \<and> requests (createMessage env h sys msgs md) = requests (createMessage env h' sys msgs md)
   \<and> (a \<noteq> c \<longrightarrow>
        yieldedBy c (fst (interleaved h (map (Pair a) acts @ alone c es)))
          = yieldedBy c (fst (interleaved h' (alone c es)))
        \<and> yieldedBy c (fst (interleaved h' (alone c es))) = fst (responsesLoop (resetCall h') es))"
proof -
  have same: "createMessage env h sys msgs md = (createMessage env h' sys msgs md)\<lparr>final := x\<rparr>"
    if "x = final (createMessage env h sys msgs md)" for x
    using that resetCall_const[of h h']
    by (auto simp: createMessage_def Let_def split: sum.splits prod.splits)
  have e: "emitted (createMessage env h sys msgs md) = emitted (createMessage env h' sys msgs md)"
    and t: "thrown (createMessage env h sys msgs md) = thrown (createMessage env h' sys msgs md)"
    and r: "requests (createMessage env h sys msgs md) = requests (createMessage env h' sys msgs md)"
    using same[OF refl] by (metis outcome.select_convs outcome.surjective outcome.update_convs)+
  have seq: "yieldedBy c (fst (interleaved h (map (Pair a) acts @ alone c es)))
          = yieldedBy c (fst (interleaved h' (alone c es)))
        \<and> yieldedBy c (fst (interleaved h' (alone c es))) = fst (responsesLoop (resetCall h') es)"
    if "a \<noteq> c"
  proof -
    have "yieldedBy c (fst (interleaved h (map (Pair a) acts @ alone c es)))
        = fst (responsesLoop (resetCall (snd (interleaved h (map (Pair a) acts)))) es)"
      by (simp only: interleaved_append yieldedBy_append interleaved_other_call[OF that]
          interleaved_alone append_Nil)
    also have "\<dots> = fst (responsesLoop (resetCall h') es)"
      using resetCall_const[of "snd (interleaved h (map (Pair a) acts))" h'] by simp
    finally show ?thesis by (simp add: interleaved_alone)
  qed
  from e t r seq show ?thesis by blast
qed

theorem C8_reset_at_start_witness:
  "yieldedBy 1 (fst (interleaved newHandler
      (map (Pair 0) [Begin, Feed addedT1] @ alone 1 [anonDelta]))) = []
   \<and> emitted (createMessage
        (baseEnv\<lparr>getModelInfo := responsesInfo, responsesCreate := \<lambda>r. Inr anonStream\<rparr>)
        (newHandler\<lparr>pendingToolCallId := Some ''t1'', pendingToolCallName := Some ''search''\<rparr>)
        ''sys'' [] None) = []"
proof -
  let ?e = "baseEnv\<lparr>getModelInfo := responsesInfo, responsesCreate := \<lambda>r. Inr anonStream\<rparr>"
  let ?h = "newHandler\<lparr>pendingToolCallId := Some ''t1'', pendingToolCallName := Some ''search''\<rparr>"
  note t = C8_reset_at_start[of ?e ?h "''sys''" "[]" None newHandler 0 1 "[Begin, Feed addedT1]"
      "[anonDelta]"]
  have n: "(0::nat) \<noteq> 1" by simp
  have l: "fst (responsesLoop (resetCall newHandler) [anonDelta]) = []"
    by (simp add: anonDelta_def responses_eval)
  have f: "emitted (createMessage ?e newHandler ''sys'' [] None) = []"
    by (simp add: createMessage_def getClientWithBase_def prefersResponses_def baseEnv_def
        responsesInfo_def anonStream_def anonDelta_def formatFullConversation_def responses_eval)
  have b: "emitted (createMessage ?e ?h ''sys'' [] None) = []"
    using t f by simp
  have c: "yieldedBy 1 (fst (interleaved newHandler
      (map (Pair 0) [Begin, Feed addedT1] @ alone 1 [anonDelta]))) = []"
    using C8_reset_at_start[of ?e newHandler "''sys''" "[]" None newHandler 0 1
        "[Begin, Feed addedT1]" "[anonDelta]"] n l by simp
  from b c show ?thesis by blast
qed

end
